theory Spec2Isabelle
  imports Main "HOL-Library.Sublist"
begin

section \<open>JavaScript values as produced by JSON.parse\<close>

text \<open>
  The action (src/index.ts) hands the validator's stdout to \<open>JSON.parse\<close> and then reads
  the resulting value with property accesses, optional chaining, \<open>||\<close>, \<open>toString()\<close>,
  template literals, \<open>> 0\<close> and \<open>forEach\<close>. The value is untyped at run time (the
  TypeScript interface is erased), so the model keeps every JSON shape.

  Numbers are the integer-valued JSON numbers whose JavaScript rendering is the plain
  decimal numeral (magnitude below \<open>10^21\<close>); fractions and exponents are outside the
  model. Strings are lists of \<open>char\<close>, one \<open>char\<close> per code unit of an ASCII text, so
  that \<open>length\<close> is JavaScript's \<open>.length\<close>; the emoji of the log texts are spelled as
  their UTF-8 bytes. An object is the list of its members in source order. \<open>None\<close> of
  type \<open>jsval\<close> is JavaScript's \<open>undefined\<close>, which JSON.parse never puts inside a
  value but every missing property yields.
\<close>

datatype json =
    JNull
  | JBool bool
  | JNum int
  | JStr string
  | JArr "json list"
  | JObj "(string \<times> json) list"

type_synonym jsval = "json option"

text \<open>The only fault the interpreted code can raise is a TypeError of the runtime.\<close>

datatype fault = TypeError

definition andThen :: "fault + 'a \<Rightarrow> ('a \<Rightarrow> fault + 'b) \<Rightarrow> fault + 'b" where
  "andThen m f = (case m of Inl e \<Rightarrow> Inl e | Inr v \<Rightarrow> f v)"

subsection \<open>Number.prototype.toString on integers\<close>

definition digit :: "nat \<Rightarrow> char" where
  "digit d = ''0123456789'' ! d"

fun decimal :: "nat \<Rightarrow> string" where
  "decimal n = (if n < 10 then [digit n] else decimal (n div 10) @ [digit (n mod 10)])"

declare decimal.simps [simp del]

definition number_toString :: "int \<Rightarrow> string" where
  "number_toString i = (if i < 0 then CHR ''-'' # decimal (nat (- i)) else decimal (nat i))"

subsection \<open>Truthiness, property reads, string conversion\<close>

fun truthy :: "jsval \<Rightarrow> bool" where
  "truthy None = False"
| "truthy (Some JNull) = False"
| "truthy (Some (JBool b)) = b"
| "truthy (Some (JNum n)) = (n \<noteq> 0)"
| "truthy (Some (JStr s)) = (s \<noteq> [])"
| "truthy (Some (JArr xs)) = True"
| "truthy (Some (JObj kvs)) = True"

text \<open>Own property of a parsed object; of a duplicated key JSON.parse keeps the last.\<close>

definition own :: "(string \<times> json) list \<Rightarrow> string \<Rightarrow> jsval" where
  "own kvs k = map_of (rev kvs) k"

text \<open>
  \<open>v.k\<close> for the data keys the action reads (\<open>success\<close>, \<open>valid\<close>, \<open>errors\<close>,
  \<open>warnings\<close>, \<open>scoringResult\<close>, \<open>compliance\<close>, \<open>trust\<close>, \<open>availability\<close>,
  \<open>productionReady\<close>, \<open>total\<close>, \<open>score\<close>, \<open>rating\<close>, \<open>message\<close>, \<open>length\<close>):
  none of them is inherited from a prototype, \<open>length\<close> is an own property of arrays and
  strings. Reading a property of \<open>undefined\<close> or \<open>null\<close> throws.
\<close>

fun js_get :: "jsval \<Rightarrow> string \<Rightarrow> fault + jsval" where
  "js_get None k = Inl TypeError"
| "js_get (Some JNull) k = Inl TypeError"
| "js_get (Some (JBool b)) k = Inr None"
| "js_get (Some (JNum n)) k = Inr None"
| "js_get (Some (JStr s)) k = Inr (if k = ''length'' then Some (JNum (int (length s))) else None)"
| "js_get (Some (JArr xs)) k = Inr (if k = ''length'' then Some (JNum (int (length xs))) else None)"
| "js_get (Some (JObj kvs)) k = Inr (own kvs k)"

text \<open>\<open>v?.k\<close>: \<open>undefined\<close> when \<open>v\<close> is \<open>undefined\<close> or \<open>null\<close>.\<close>

definition js_opt_get :: "jsval \<Rightarrow> string \<Rightarrow> fault + jsval" where
  "js_opt_get v k = (if v = None \<or> v = Some JNull then Inr None else js_get v k)"

text \<open>
  The abstract operation ToString on a parsed value. An array is joined with commas, a
  \<open>null\<close> element giving the empty string. A plain object inherits
  \<open>Object.prototype.toString\<close>, unless it carries an own key \<open>toString\<close>: a parsed
  value is never callable, so the conversion then throws.
\<close>

fun ToString :: "json \<Rightarrow> fault + string"
  and join :: "json list \<Rightarrow> fault + string" where
  "ToString JNull = Inr ''null''"
| "ToString (JBool b) = Inr (if b then ''true'' else ''false'')"
| "ToString (JNum n) = Inr (number_toString n)"
| "ToString (JStr s) = Inr s"
| "ToString (JArr xs) = join xs"
| "ToString (JObj kvs) =
     (if own kvs ''toString'' \<noteq> None then Inl TypeError else Inr ''[object Object]'')"
| "join [] = Inr []"
| "join [x] = (if x = JNull then Inr [] else ToString x)"
| "join (x # y # ys) =
     (case (if x = JNull then Inr [] else ToString x) of
        Inl e \<Rightarrow> Inl e
      | Inr a \<Rightarrow> (case join (y # ys) of Inl e \<Rightarrow> Inl e | Inr b \<Rightarrow> Inr (a @ '','' @ b)))"

text \<open>\<open>`${v}`\<close> inside a template literal.\<close>

definition js_ToString :: "jsval \<Rightarrow> fault + string" where
  "js_ToString v = (case v of None \<Rightarrow> Inr ''undefined'' | Some j \<Rightarrow> ToString j)"

text \<open>\<open>v.toString()\<close>: throws on \<open>undefined\<close> and \<open>null\<close>.\<close>

definition js_toString_call :: "jsval \<Rightarrow> fault + string" where
  "js_toString_call v =
     (case v of None \<Rightarrow> Inl TypeError | Some JNull \<Rightarrow> Inl TypeError | Some j \<Rightarrow> ToString j)"

text \<open>\<open>v?.toString()\<close>: \<open>None\<close> is the \<open>undefined\<close> of the short-circuit.\<close>

definition js_opt_toString_call :: "jsval \<Rightarrow> fault + string option" where
  "js_opt_toString_call v =
     (if v = None \<or> v = Some JNull then Inr None
      else andThen (js_toString_call v) (\<lambda>s. Inr (Some s)))"

text \<open>\<open>s || d\<close> for a string or \<open>undefined\<close> on the left: the empty string is falsy.\<close>

definition or_default :: "string option \<Rightarrow> string \<Rightarrow> string" where
  "or_default s d = (case s of None \<Rightarrow> d | Some t \<Rightarrow> if t \<noteq> [] then t else d)"

subsection \<open>The runtime the action relies on\<close>

text \<open>
  \<open>JSON_parse\<close> is the built-in parser: \<open>None\<close> when it throws. \<open>StringToNumber_positive s\<close>
  tells whether the number the runtime converts the string \<open>s\<close> to is greater than zero;
  the comparison \<open>v > 0\<close> reaches it only when \<open>v\<close> is a string or an array.
\<close>

record runtime =
  JSON_parse :: "string \<Rightarrow> json option"
  StringToNumber_positive :: "string \<Rightarrow> bool"

text \<open>
  \<open>v > 0\<close>: \<open>undefined\<close> and an object without own \<open>toString\<close> convert to NaN,
  \<open>null\<close> and \<open>false\<close> to 0, \<open>true\<close> to 1; an array is joined first.
\<close>

fun js_gt_zero :: "runtime \<Rightarrow> jsval \<Rightarrow> fault + bool" where
  "js_gt_zero rt None = Inr False"
| "js_gt_zero rt (Some JNull) = Inr False"
| "js_gt_zero rt (Some (JBool b)) = Inr b"
| "js_gt_zero rt (Some (JNum n)) = Inr (0 < n)"
| "js_gt_zero rt (Some (JStr s)) = Inr (StringToNumber_positive rt s)"
| "js_gt_zero rt (Some (JArr xs)) =
     andThen (join xs) (\<lambda>s. Inr (StringToNumber_positive rt s))"
| "js_gt_zero rt (Some (JObj kvs)) =
     (if own kvs ''toString'' \<noteq> None then Inl TypeError else Inr False)"

section \<open>The host: outputs, log and job status of @actions/core\<close>

datatype severity = Debug | Info | Warning | Error

text \<open>
  The message handed to \<open>core.setFailed\<close>: a text the action builds, or the
  \<open>message\<close> of a caught runtime error, whose wording belongs to the runtime.
\<close>

datatype message = Text string | ErrorMessage fault

record host =
  outputs :: "(string \<times> string) list"
  log :: "(severity \<times> string) list"
  failed :: "message option"

definition host0 :: host where
  "host0 = \<lparr>outputs = [], log = [], failed = None\<rparr>"

text \<open>The value a later step reads for a named output: the last one set.\<close>

definition output_value :: "host \<Rightarrow> string \<Rightarrow> string option" where
  "output_value h name = map_of (rev (outputs h)) name"

text \<open>
  A statement runs on the host and either completes or throws; what it has emitted
  before throwing stays emitted.
\<close>

type_synonym stmt = "host \<Rightarrow> fault option \<times> host"

definition skip :: stmt where
  "skip h = (None, h)"

definition throw :: "fault \<Rightarrow> stmt" where
  "throw e h = (Some e, h)"

definition seq :: "stmt \<Rightarrow> stmt \<Rightarrow> stmt" where
  "seq a b h = (case a h of (None, h') \<Rightarrow> b h' | (Some e, h') \<Rightarrow> (Some e, h'))"

fun block :: "stmt list \<Rightarrow> stmt" where
  "block [] = skip"
| "block (c # cs) = seq c (block cs)"

definition eval :: "fault + 'a \<Rightarrow> ('a \<Rightarrow> stmt) \<Rightarrow> stmt" where
  "eval e k h = (case e of Inl f \<Rightarrow> (Some f, h) | Inr v \<Rightarrow> k v h)"

definition core_setOutput :: "string \<Rightarrow> string \<Rightarrow> stmt" where
  "core_setOutput name v h = (None, h\<lparr>outputs := outputs h @ [(name, v)]\<rparr>)"

definition core_debug :: "string \<Rightarrow> stmt" where
  "core_debug s h = (None, h\<lparr>log := log h @ [(Debug, s)]\<rparr>)"

definition core_info :: "string \<Rightarrow> stmt" where
  "core_info s h = (None, h\<lparr>log := log h @ [(Info, s)]\<rparr>)"

definition core_warning :: "string \<Rightarrow> stmt" where
  "core_warning s h = (None, h\<lparr>log := log h @ [(Warning, s)]\<rparr>)"

definition core_error :: "string \<Rightarrow> stmt" where
  "core_error s h = (None, h\<lparr>log := log h @ [(Error, s)]\<rparr>)"

definition core_setFailed :: "message \<Rightarrow> stmt" where
  "core_setFailed m h = (None, h\<lparr>failed := Some m\<rparr>)"

text \<open>\<open>v.forEach(cb)\<close>: only an array has the method.\<close>

fun forEach :: "(json \<Rightarrow> stmt) \<Rightarrow> json list \<Rightarrow> stmt" where
  "forEach f [] = skip"
| "forEach f (x # xs) = seq (f x) (forEach f xs)"

definition js_forEach :: "jsval \<Rightarrow> (json \<Rightarrow> stmt) \<Rightarrow> stmt" where
  "js_forEach v f = (case v of Some (JArr xs) \<Rightarrow> forEach f xs | _ \<Rightarrow> throw TypeError)"

section \<open>The action: run of src/index.ts\<close>

record inputs =
  agentCard :: string
  strict :: bool
  testLive :: bool
  skipSignature :: bool
  timeout :: string
  failOnWarnings :: bool

text \<open>
  What \<open>exec.exec('capiscio', args, options)\<close> leaves behind: the exit code it resolves
  to (\<open>ignoreReturnCode\<close> is set, so it does not throw on a nonzero code) and the two
  accumulators the listeners fill.
\<close>

record process_result =
  exitCode :: int
  "output" :: string
  errorOutput :: string

definition emoji_rocket :: string where
  "emoji_rocket = [CHR 0xF0, CHR 0x9F, CHR 0x9A, CHR 0x80]"

definition emoji_package :: string where
  "emoji_package = [CHR 0xF0, CHR 0x9F, CHR 0x93, CHR 0xA6]"

definition emoji_magnifier :: string where
  "emoji_magnifier = [CHR 0xF0, CHR 0x9F, CHR 0x94, CHR 0x8D]"

definition emoji_chart :: string where
  "emoji_chart = [CHR 0xF0, CHR 0x9F, CHR 0x93, CHR 0x8A]"

definition emoji_target :: string where
  "emoji_target = [CHR 0xF0, CHR 0x9F, CHR 0x8E, CHR 0xAF]"

definition emoji_check :: string where
  "emoji_check = [CHR 0xE2, CHR 0x9C, CHR 0x85]"

definition emoji_cross :: string where
  "emoji_cross = [CHR 0xE2, CHR 0x9D, CHR 0x8C]"

definition emoji_warning :: string where
  "emoji_warning = [CHR 0xE2, CHR 0x9A, CHR 0xA0, CHR 0xEF, CHR 0xB8, CHR 0x8F]"

fun join_strings :: "string \<Rightarrow> string list \<Rightarrow> string" where
  "join_strings sep [] = []"
| "join_strings sep [a] = a"
| "join_strings sep (a # b # bs) = a @ sep @ join_strings sep (b # bs)"

definition build_args :: "inputs \<Rightarrow> string list" where
  "build_args inp =
     [''validate'', agentCard inp, ''--json'']
     @ (if strict inp then [''--strict''] else [])
     @ (if testLive inp then [''--test-live''] else [])
     @ (if skipSignature inp then [''--skip-signature''] else [])
     @ (if timeout inp \<noteq> [] then [''--timeout'', timeout inp] else [])"

text \<open>\<open>v?.length || 0\<close>, the count of lines 82, 83 and 143.\<close>

definition count_value :: "jsval \<Rightarrow> fault + jsval" where
  "count_value v =
     andThen (js_opt_get v ''length'') (\<lambda>n. Inr (if truthy n then n else Some (JNum 0)))"

text \<open>\<open>(result.field?.length || 0).toString()\<close>, the count output of lines 82 and 83.\<close>

definition count_text :: "json \<Rightarrow> string \<Rightarrow> fault + string" where
  "count_text result field =
     andThen (andThen (js_get (Some result) field) count_value) js_toString_call"

text \<open>Lines 81 to 83.\<close>

definition set_basic_outputs :: "json \<Rightarrow> stmt" where
  "set_basic_outputs result = block
     [eval (js_get (Some result) ''success'')
        (\<lambda>s. core_setOutput ''result'' (if truthy s then ''passed'' else ''failed'')),
      eval (count_text result ''errors'') (core_setOutput ''error-count''),
      eval (count_text result ''warnings'') (core_setOutput ''warning-count'')]"

text \<open>\<open>sr.dim?.total\<close>, the value a dimension's outputs are computed from.\<close>

definition dimension_total :: "jsval \<Rightarrow> string \<Rightarrow> fault + jsval" where
  "dimension_total sr dim = andThen (js_get sr dim) (\<lambda>d. js_opt_get d ''total'')"

text \<open>\<open>sr.dim?.total?.toString() || dflt\<close>, the expression of lines 87, 88 and 91.\<close>

definition score_text :: "jsval \<Rightarrow> string \<Rightarrow> string \<Rightarrow> fault + string" where
  "score_text sr dim dflt =
     andThen (dimension_total sr dim) (\<lambda>t.
     andThen (js_opt_toString_call t) (\<lambda>s. Inr (or_default s dflt)))"

text \<open>Lines 87 to 93; \<open>sr\<close> is the truthy \<open>result.scoringResult\<close>.\<close>

definition set_scoring_outputs :: "jsval \<Rightarrow> stmt" where
  "set_scoring_outputs sr = block
     [eval (score_text sr ''compliance'' ''0'') (core_setOutput ''compliance-score''),
      eval (score_text sr ''trust'' ''0'') (core_setOutput ''trust-score''),
      eval (score_text sr ''availability'' ''not-tested'') (core_setOutput ''availability-score''),
      eval (andThen (js_get sr ''productionReady'')
              (\<lambda>p. js_toString_call (if truthy p then p else Some (JBool False))))
        (core_setOutput ''production-ready'')]"

text \<open>The info line of a dimension: \<open>`  Label: ${d.total}/100 (${d.rating})`\<close>.\<close>

definition score_line :: "string \<Rightarrow> jsval \<Rightarrow> stmt" where
  "score_line label d =
     eval (js_get d ''total'') (\<lambda>score.
     eval (js_get d ''rating'') (\<lambda>rating.
     eval (js_ToString score) (\<lambda>s.
     eval (js_ToString rating) (\<lambda>r.
       core_info (''  '' @ label @ '': '' @ s @ ''/100 ('' @ r @ '')'')))))"

text \<open>Lines 96 to 114.\<close>

definition display_scores :: "jsval \<Rightarrow> stmt" where
  "display_scores sr = block
     [core_info [],
      core_info (emoji_chart @ '' Quality Scores:''),
      eval (js_get sr ''compliance'') (\<lambda>c.
        if truthy c then score_line ''Compliance'' c else skip),
      eval (js_get sr ''trust'') (\<lambda>t.
        if truthy t then score_line ''Trust'' t else skip),
      eval (js_get sr ''availability'') (\<lambda>a.
        if truthy a
        then eval (js_get a ''total'') (\<lambda>t.
               if t \<noteq> Some JNull then score_line ''Availability'' a else skip)
        else skip),
      core_info [],
      eval (js_get sr ''productionReady'') (\<lambda>p.
        core_info (emoji_target @ '' Production Ready: ''
          @ (if truthy p then emoji_check @ '' YES'' else emoji_cross @ '' NO'')))]"

text \<open>Lines 117 to 120.\<close>

definition set_scoring_sentinels :: stmt where
  "set_scoring_sentinels = block
     [core_setOutput ''compliance-score'' ''N/A'',
      core_setOutput ''trust-score'' ''N/A'',
      core_setOutput ''availability-score'' ''N/A'',
      core_setOutput ''production-ready'' ''false'']"

text \<open>Lines 86 to 121.\<close>

definition scoring :: "json \<Rightarrow> stmt" where
  "scoring result =
     eval (js_get (Some result) ''scoringResult'') (\<lambda>sr.
       if truthy sr then block [set_scoring_outputs sr, display_scores sr]
       else set_scoring_sentinels)"

text \<open>\<open>`  - ${f.message || f}`\<close>, the text of one finding.\<close>

definition finding_line :: "json \<Rightarrow> fault + string" where
  "finding_line f =
     andThen (js_get (Some f) ''message'') (\<lambda>m.
     andThen (js_ToString (if truthy m then m else Some f)) (\<lambda>s. Inr (''  - '' @ s)))"

text \<open>
  Lines 124 to 139, once for \<open>errors\<close> with \<open>core.error\<close> and once for \<open>warnings\<close>
  with \<open>core.warning\<close>; \<open>heading\<close> builds the "Found N ..." line from the rendered length.
\<close>

definition display_findings ::
  "runtime \<Rightarrow> json \<Rightarrow> string \<Rightarrow> (string \<Rightarrow> stmt) \<Rightarrow> (string \<Rightarrow> string) \<Rightarrow> stmt" where
  "display_findings rt result field emit heading =
     eval (js_get (Some result) field) (\<lambda>fs.
       if \<not> truthy fs then skip
       else eval (andThen (js_get fs ''length'') (js_gt_zero rt)) (\<lambda>positive.
         if \<not> positive then skip
         else block
           [core_info [],
            eval (andThen (js_get fs ''length'') js_ToString) (\<lambda>n. emit (heading n)),
            js_forEach fs (\<lambda>f. eval (finding_line f) emit)]))"

definition display_errors :: "runtime \<Rightarrow> json \<Rightarrow> stmt" where
  "display_errors rt result =
     display_findings rt result ''errors'' core_error
       (\<lambda>n. emoji_cross @ '' Found '' @ n @ '' error(s):'')"

definition display_warnings :: "runtime \<Rightarrow> json \<Rightarrow> stmt" where
  "display_warnings rt result =
     display_findings rt result ''warnings'' core_warning
       (\<lambda>n. emoji_warning @ ''  Found '' @ n @ '' warning(s):'')"

definition failed_message :: "string \<Rightarrow> string" where
  "failed_message n = ''Validation failed with '' @ n @ '' error(s)''"

definition warnings_message :: "string \<Rightarrow> string" where
  "warnings_message n =
     ''Validation passed but found '' @ n @ '' warning(s) (fail-on-warnings enabled)''"

definition report_passed :: stmt where
  "report_passed = block [core_info [], core_info (emoji_check @ '' Validation passed!'')]"

text \<open>Lines 142 to 150.\<close>

definition decide :: "runtime \<Rightarrow> inputs \<Rightarrow> json \<Rightarrow> stmt" where
  "decide rt inp result =
     eval (js_get (Some result) ''success'') (\<lambda>s.
       if \<not> truthy s
       then eval (andThen (andThen (js_get (Some result) ''errors'') count_value) js_ToString)
              (\<lambda>n. core_setFailed (Text (failed_message n)))
       else if \<not> failOnWarnings inp then report_passed
       else eval (js_get (Some result) ''warnings'') (\<lambda>ws.
         if \<not> truthy ws then report_passed
         else eval (andThen (js_get ws ''length'') (js_gt_zero rt)) (\<lambda>positive.
           if \<not> positive then report_passed
           else eval (andThen (js_get ws ''length'') js_ToString)
                  (\<lambda>n. core_setFailed (Text (warnings_message n))))))"

text \<open>Lines 80 to 150: everything done with a parsed value.\<close>

definition interpret_result :: "runtime \<Rightarrow> inputs \<Rightarrow> json \<Rightarrow> stmt" where
  "interpret_result rt inp result = block
     [set_basic_outputs result,
      scoring result,
      display_errors rt result,
      display_warnings rt result,
      decide rt inp result]"

text \<open>Lines 72 to 77: the handler of the inner \<open>try\<close>, ending in \<open>return\<close>.\<close>

definition parse_failed :: "process_result \<Rightarrow> stmt" where
  "parse_failed p = block
     [core_error ''Failed to parse validation output as JSON'',
      core_error (''Raw output: '' @ output p),
      core_error (''Error output: '' @ errorOutput p),
      core_setFailed (Text (''Validation failed with exit code '' @ number_toString (exitCode p)))]"

text \<open>
  Lines 26 to 65, from the point where the inputs are read: the three banners around the
  two child processes (the installation is taken to return without throwing, the
  validator to return \<open>p\<close>) and the two debug lines.
\<close>

definition announce :: "inputs \<Rightarrow> process_result \<Rightarrow> stmt" where
  "announce inp p = block
     [core_info (emoji_rocket @ '' Validating A2A agent card: '' @ agentCard inp),
      core_info (emoji_package @ '' Installing capiscio-cli@2.0.0...''),
      core_info (emoji_magnifier @ '' Running: capiscio '' @ join_strings '' '' (build_args inp)),
      (if output p \<noteq> [] then core_debug (''CLI Output: '' @ output p) else skip),
      (if errorOutput p \<noteq> [] then core_debug (''CLI Error Output: '' @ errorOutput p)
       else skip)]"

text \<open>Lines 26 to 150, the body of the outer \<open>try\<close>.\<close>

definition run_body :: "runtime \<Rightarrow> inputs \<Rightarrow> process_result \<Rightarrow> stmt" where
  "run_body rt inp p =
     seq (announce inp p)
       (case JSON_parse rt (output p) of
          None \<Rightarrow> parse_failed p
        | Some result \<Rightarrow> interpret_result rt inp result)"

text \<open>
  Lines 152 to 158: a fault of the body reaches the outer handler, which fails the job
  with the error's message (every fault of the model is an \<open>Error\<close>).
\<close>

definition handle :: "fault option \<times> host \<Rightarrow> host" where
  "handle r =
     (case r of
        (None, h) \<Rightarrow> h
      | (Some e, h) \<Rightarrow> snd (core_setFailed (ErrorMessage e) h))"

text \<open>\<open>run\<close> returns the host as the action leaves it.\<close>

definition run :: "runtime \<Rightarrow> inputs \<Rightarrow> process_result \<Rightarrow> host" where
  "run rt inp p = handle (run_body rt inp p host0)"

section \<open>The older variant of the action\<close>

text \<open>
  The second source file holds the same \<open>run\<close> written against the validator's earlier
  schema: it reads \<open>valid\<close> where src/index.ts reads \<open>success\<close>, and \<open>score\<close>
  where src/index.ts reads \<open>total\<close>, without optional chaining and without a branch for
  a missing \<open>scoringResult\<close>. Its functions carry the prefix \<open>legacy_\<close> here.
\<close>

text \<open>\<open>result.field.length.toString()\<close>, lines 70 and 71.\<close>

definition legacy_count_text :: "json \<Rightarrow> string \<Rightarrow> fault + string" where
  "legacy_count_text result field =
     andThen (js_get (Some result) field) (\<lambda>v.
     andThen (js_get v ''length'') js_toString_call)"

text \<open>Lines 69 to 71.\<close>

definition legacy_set_basic_outputs :: "json \<Rightarrow> stmt" where
  "legacy_set_basic_outputs result = block
     [eval (js_get (Some result) ''valid'')
        (\<lambda>s. core_setOutput ''result'' (if truthy s then ''passed'' else ''failed'')),
      eval (legacy_count_text result ''errors'') (core_setOutput ''error-count''),
      eval (legacy_count_text result ''warnings'') (core_setOutput ''warning-count'')]"

text \<open>\<open>sr.dim.score.toString()\<close>, lines 74, 75 and 79.\<close>

definition legacy_score_text :: "jsval \<Rightarrow> string \<Rightarrow> fault + string" where
  "legacy_score_text sr dim =
     andThen (js_get sr dim) (\<lambda>d. andThen (js_get d ''score'') js_toString_call)"

text \<open>Lines 74 to 82.\<close>

definition legacy_set_scoring_outputs :: "jsval \<Rightarrow> stmt" where
  "legacy_set_scoring_outputs sr = block
     [eval (legacy_score_text sr ''compliance'') (core_setOutput ''compliance-score''),
      eval (legacy_score_text sr ''trust'') (core_setOutput ''trust-score''),
      eval (js_get sr ''availability'') (\<lambda>a.
        if truthy a
        then eval (legacy_score_text sr ''availability'') (core_setOutput ''availability-score'')
        else core_setOutput ''availability-score'' ''not-tested''),
      eval (andThen (js_get sr ''productionReady'') js_toString_call)
        (core_setOutput ''production-ready'')]"

text \<open>\<open>`  Label: ${sr.dim.score}/100 (${sr.dim.rating})`\<close>.\<close>

definition legacy_score_line :: "string \<Rightarrow> jsval \<Rightarrow> string \<Rightarrow> stmt" where
  "legacy_score_line label sr dim =
     eval (andThen (andThen (js_get sr dim) (\<lambda>d. js_get d ''score'')) js_ToString) (\<lambda>s.
     eval (andThen (andThen (js_get sr dim) (\<lambda>d. js_get d ''rating'')) js_ToString) (\<lambda>r.
       core_info (''  '' @ label @ '': '' @ s @ ''/100 ('' @ r @ '')'')))"

text \<open>Lines 85 to 93.\<close>

definition legacy_display_scores :: "jsval \<Rightarrow> stmt" where
  "legacy_display_scores sr = block
     [core_info [],
      core_info (emoji_chart @ '' Quality Scores:''),
      legacy_score_line ''Compliance'' sr ''compliance'',
      legacy_score_line ''Trust'' sr ''trust'',
      eval (js_get sr ''availability'') (\<lambda>a.
        if truthy a then legacy_score_line ''Availability'' sr ''availability'' else skip),
      core_info [],
      eval (js_get sr ''productionReady'') (\<lambda>p.
        core_info (emoji_target @ '' Production Ready: ''
          @ (if truthy p then emoji_check @ '' YES'' else emoji_cross @ '' NO'')))]"

text \<open>Lines 73 to 94: nothing is emitted when \<open>scoringResult\<close> is falsy.\<close>

definition legacy_scoring :: "json \<Rightarrow> stmt" where
  "legacy_scoring result =
     eval (js_get (Some result) ''scoringResult'') (\<lambda>sr.
       if truthy sr then block [legacy_set_scoring_outputs sr, legacy_display_scores sr]
       else skip)"

text \<open>\<open>`  - ${f.message}`\<close>.\<close>

definition legacy_finding_line :: "json \<Rightarrow> fault + string" where
  "legacy_finding_line f =
     andThen (js_get (Some f) ''message'') (\<lambda>m.
     andThen (js_ToString m) (\<lambda>s. Inr (''  - '' @ s)))"

text \<open>\<open>result.field.length\<close>.\<close>

definition legacy_length :: "json \<Rightarrow> string \<Rightarrow> fault + jsval" where
  "legacy_length result field =
     andThen (js_get (Some result) field) (\<lambda>v. js_get v ''length'')"

text \<open>Lines 97 to 112.\<close>

definition legacy_display_findings ::
  "runtime \<Rightarrow> json \<Rightarrow> string \<Rightarrow> (string \<Rightarrow> stmt) \<Rightarrow> (string \<Rightarrow> string) \<Rightarrow> stmt" where
  "legacy_display_findings rt result field emit heading =
     eval (andThen (legacy_length result field) (js_gt_zero rt)) (\<lambda>positive.
       if \<not> positive then skip
       else block
         [core_info [],
          eval (andThen (legacy_length result field) js_ToString) (\<lambda>n. emit (heading n)),
          eval (js_get (Some result) field) (\<lambda>fs.
            js_forEach fs (\<lambda>f. eval (legacy_finding_line f) emit))])"

definition legacy_display_errors :: "runtime \<Rightarrow> json \<Rightarrow> stmt" where
  "legacy_display_errors rt result =
     legacy_display_findings rt result ''errors'' core_error
       (\<lambda>n. emoji_cross @ '' Found '' @ n @ '' error(s):'')"

definition legacy_display_warnings :: "runtime \<Rightarrow> json \<Rightarrow> stmt" where
  "legacy_display_warnings rt result =
     legacy_display_findings rt result ''warnings'' core_warning
       (\<lambda>n. emoji_warning @ ''  Found '' @ n @ '' warning(s):'')"

text \<open>Lines 115 to 122.\<close>

definition legacy_decide :: "runtime \<Rightarrow> inputs \<Rightarrow> json \<Rightarrow> stmt" where
  "legacy_decide rt inp result =
     eval (js_get (Some result) ''valid'') (\<lambda>s.
       if \<not> truthy s
       then eval (andThen (legacy_length result ''errors'') js_ToString)
              (\<lambda>n. core_setFailed (Text (failed_message n)))
       else if \<not> failOnWarnings inp then report_passed
       else eval (andThen (legacy_length result ''warnings'') (js_gt_zero rt)) (\<lambda>positive.
         if \<not> positive then report_passed
         else eval (andThen (legacy_length result ''warnings'') js_ToString)
                (\<lambda>n. core_setFailed (Text (warnings_message n)))))"

text \<open>Lines 68 to 122.\<close>

definition legacy_interpret_result :: "runtime \<Rightarrow> inputs \<Rightarrow> json \<Rightarrow> stmt" where
  "legacy_interpret_result rt inp result = block
     [legacy_set_basic_outputs result,
      legacy_scoring result,
      legacy_display_errors rt result,
      legacy_display_warnings rt result,
      legacy_decide rt inp result]"

text \<open>Lines 63 to 66.\<close>

definition legacy_parse_failed :: "process_result \<Rightarrow> stmt" where
  "legacy_parse_failed p =
     core_setFailed (Text (''Failed to parse validation output: '' @ output p))"

text \<open>Lines 26 to 57.\<close>

definition legacy_announce :: "inputs \<Rightarrow> stmt" where
  "legacy_announce inp = block
     [core_info (emoji_rocket @ '' Validating A2A agent card: '' @ agentCard inp),
      core_info (emoji_package @ '' Installing capiscio-cli@2.0.0...''),
      core_info (emoji_magnifier @ '' Running: capiscio '' @ join_strings '' '' (build_args inp))]"

text \<open>Lines 26 to 122.\<close>

definition legacy_run_body :: "runtime \<Rightarrow> inputs \<Rightarrow> process_result \<Rightarrow> stmt" where
  "legacy_run_body rt inp p =
     seq (legacy_announce inp)
       (case JSON_parse rt (output p) of
          None \<Rightarrow> legacy_parse_failed p
        | Some result \<Rightarrow> legacy_interpret_result rt inp result)"

definition legacy_run :: "runtime \<Rightarrow> inputs \<Rightarrow> process_result \<Rightarrow> host" where
  "legacy_run rt inp p = handle (legacy_run_body rt inp p host0)"

section \<open>Observations and sample inputs\<close>

text \<open>The host at the moment the validator's stdout is parsed.\<close>

definition started :: "inputs \<Rightarrow> process_result \<Rightarrow> host" where
  "started inp p = snd (announce inp p host0)"

definition legacy_started :: "inputs \<Rightarrow> host" where
  "legacy_started inp = snd (legacy_announce inp host0)"

text \<open>A statement that never changes what a later step reads for the output \<open>name\<close>.\<close>

definition leaves :: "string \<Rightarrow> stmt \<Rightarrow> bool" where
  "leaves name c \<longleftrightarrow> (\<forall>h. output_value (snd (c h)) name = output_value h name)"

text \<open>
  A runtime for the samples: a parser given by a finite table of the stdout texts it
  accepts, and a string-to-number conversion under which no string is positive.
\<close>

definition table_runtime :: "(string \<times> json) list \<Rightarrow> runtime" where
  "table_runtime table =
     \<lparr>JSON_parse = map_of table, StringToNumber_positive = (\<lambda>s. False)\<rparr>"

definition sample_inputs :: "bool \<Rightarrow> inputs" where
  "sample_inputs fow =
     \<lparr>agentCard = ''./agent-card.json'', strict = False, testLive = False,
      skipSignature = False, timeout = [], failOnWarnings = fow\<rparr>"

definition sample_process :: "int \<Rightarrow> string \<Rightarrow> process_result" where
  "sample_process code out = \<lparr>exitCode = code, output = out, errorOutput = ''oops''\<rparr>"

text \<open>
  \<open>{"success": true, "errors": [], "warnings": [], "scoringResult": {"compliance":
  {"total": 90, "rating": "A"}, "trust": {"total": 85, "rating": "B"}, "availability": null,
  "productionReady": true}}\<close>
\<close>

definition doc_scored :: json where
  "doc_scored = JObj
     [(''success'', JBool True), (''errors'', JArr []), (''warnings'', JArr []),
      (''scoringResult'', JObj
         [(''compliance'', JObj [(''total'', JNum 90), (''rating'', JStr ''A'')]),
          (''trust'', JObj [(''total'', JNum 85), (''rating'', JStr ''B'')]),
          (''availability'', JNull),
          (''productionReady'', JBool True)])]"

text \<open>\<open>{"success": false, "errors": [{"message": "missing field X"}], "warnings": []}\<close>\<close>

definition doc_failed :: json where
  "doc_failed = JObj
     [(''success'', JBool False),
      (''errors'', JArr [JObj [(''message'', JStr ''missing field X'')]]),
      (''warnings'', JArr [])]"

text \<open>\<open>{"success": true, "errors": [], "warnings": [{"message": "deprecated field"}]}\<close>\<close>

definition doc_warned :: json where
  "doc_warned = JObj
     [(''success'', JBool True), (''errors'', JArr []),
      (''warnings'', JArr [JObj [(''message'', JStr ''deprecated field'')]])]"

text \<open>\<open>{"valid": true, "errors": [], "warnings": [{"message": "deprecated field"}]}\<close>\<close>

definition doc_warned_legacy :: json where
  "doc_warned_legacy = JObj
     [(''valid'', JBool True), (''errors'', JArr []),
      (''warnings'', JArr [JObj [(''message'', JStr ''deprecated field'')]])]"

text \<open>\<open>{"valid": true, "errors": [], "warnings": []}\<close>\<close>

definition doc_valid_only :: json where
  "doc_valid_only = JObj [(''valid'', JBool True), (''errors'', JArr []), (''warnings'', JArr [])]"

text \<open>\<open>{"success": true, "scoringResult": {"compliance": {"score": 90, "rating": "A"}}}\<close>\<close>

definition doc_score_only :: json where
  "doc_score_only = JObj
     [(''success'', JBool True),
      (''scoringResult'', JObj
         [(''compliance'', JObj [(''score'', JNum 90), (''rating'', JStr ''A'')])])]"

text \<open>\<open>{"success": true}\<close>\<close>

definition doc_bare :: json where
  "doc_bare = JObj [(''success'', JBool True)]"

text \<open>\<open>{"success": true, "errors": [], "warnings": []}\<close>\<close>

definition doc_success_only :: json where
  "doc_success_only = JObj
     [(''success'', JBool True), (''errors'', JArr []), (''warnings'', JArr [])]"

text \<open>
  \<open>{"success": true, "scoringResult": {"compliance": {"total": 90, "rating": "A"},
  "trust": {"total": 85, "rating": "B"}, "availability": {"total": 70, "rating": "C"}}}\<close>
\<close>

definition doc_live :: json where
  "doc_live = JObj
     [(''success'', JBool True),
      (''scoringResult'', JObj
         [(''compliance'', JObj [(''total'', JNum 90), (''rating'', JStr ''A'')]),
          (''trust'', JObj [(''total'', JNum 85), (''rating'', JStr ''B'')]),
          (''availability'', JObj [(''total'', JNum 70), (''rating'', JStr ''C'')])])]"

text \<open>\<open>{"success": true, "scoringResult": {}}\<close>\<close>

definition doc_unscored :: json where
  "doc_unscored = JObj [(''success'', JBool True), (''scoringResult'', JObj [])]"

text \<open>Whether a parsed value is an object.\<close>

definition is_object :: "json \<Rightarrow> bool" where
  "is_object j = (case j of JObj kvs \<Rightarrow> True | _ \<Rightarrow> False)"

text \<open>The stdout texts of the sample documents, and the parser that accepts just them.\<close>

definition text_scored :: string where
  "text_scored = ''{\"success\": true, \"errors\": [], \"warnings\": [], \"scoringResult\": {\"compliance\": {\"total\": 90, \"rating\": \"A\"}, \"trust\": {\"total\": 85, \"rating\": \"B\"}, \"availability\": null, \"productionReady\": true}}''"

definition text_failed :: string where
  "text_failed = ''{\"success\": false, \"errors\": [{\"message\": \"missing field X\"}], \"warnings\": []}''"

definition text_warned :: string where
  "text_warned = ''{\"success\": true, \"errors\": [], \"warnings\": [{\"message\": \"deprecated field\"}]}''"

definition text_warned_legacy :: string where
  "text_warned_legacy = ''{\"valid\": true, \"errors\": [], \"warnings\": [{\"message\": \"deprecated field\"}]}''"

definition text_valid_only :: string where
  "text_valid_only = ''{\"valid\": true, \"errors\": [], \"warnings\": []}''"

definition text_score_only :: string where
  "text_score_only = ''{\"success\": true, \"scoringResult\": {\"compliance\": {\"score\": 90, \"rating\": \"A\"}}}''"

definition text_bare :: string where
  "text_bare = ''{\"success\": true}''"

definition text_success_only :: string where
  "text_success_only = ''{\"success\": true, \"errors\": [], \"warnings\": []}''"

definition text_live :: string where
  "text_live = ''{\"success\": true, \"scoringResult\": {\"compliance\": {\"total\": 90, \"rating\": \"A\"}, \"trust\": {\"total\": 85, \"rating\": \"B\"}, \"availability\": {\"total\": 70, \"rating\": \"C\"}}}''"

definition text_unscored :: string where
  "text_unscored = ''{\"success\": true, \"scoringResult\": {}}''"

definition sample_runtime :: runtime where
  "sample_runtime = table_runtime
     [(''null'', JNull), (''5'', JNum 5),
      (text_bare, doc_bare), (text_failed, doc_failed), (text_warned, doc_warned),
      (text_valid_only, doc_valid_only), (text_score_only, doc_score_only),
      (text_scored, doc_scored), (text_success_only, doc_success_only),
      (text_live, doc_live), (text_unscored, doc_unscored),
      (text_warned_legacy, doc_warned_legacy)]"

text \<open>
  The shape src/index.ts declares for the parsed value (its interface \<open>ValidationResult\<close>,
  lines 4 to 14), with the findings the validator reports: a finding is a string, or an
  object that carries a non-empty string under \<open>message\<close>. The interface is erased at
  run time, so these predicates only describe inputs; \<open>run\<close> never consults them.
\<close>

fun is_boolean :: "jsval \<Rightarrow> bool" where
  "is_boolean (Some (JBool b)) = True"
| "is_boolean v = False"

fun is_number :: "jsval \<Rightarrow> bool" where
  "is_number (Some (JNum n)) = True"
| "is_number v = False"

fun is_string :: "jsval \<Rightarrow> bool" where
  "is_string (Some (JStr s)) = True"
| "is_string v = False"

fun is_finding :: "json \<Rightarrow> bool" where
  "is_finding (JStr s) = True"
| "is_finding (JObj kvs) = (is_string (own kvs ''message'') \<and> truthy (own kvs ''message''))"
| "is_finding f = False"

fun is_findings :: "jsval \<Rightarrow> bool" where
  "is_findings None = True"
| "is_findings (Some (JArr fs)) = list_all is_finding fs"
| "is_findings v = False"

fun is_dimension :: "jsval \<Rightarrow> bool" where
  "is_dimension (Some (JObj kvs)) =
     (is_number (own kvs ''total'') \<and> is_string (own kvs ''rating''))"
| "is_dimension d = False"

fun is_availability :: "jsval \<Rightarrow> bool" where
  "is_availability None = True"
| "is_availability (Some JNull) = True"
| "is_availability (Some (JObj kvs)) =
     ((is_number (own kvs ''total'') \<or> own kvs ''total'' = Some JNull)
      \<and> (is_string (own kvs ''rating'') \<or> own kvs ''rating'' = Some JNull))"
| "is_availability d = False"

fun is_scoring :: "jsval \<Rightarrow> bool" where
  "is_scoring None = True"
| "is_scoring (Some (JObj kvs)) =
     (is_dimension (own kvs ''compliance'') \<and> is_dimension (own kvs ''trust'')
      \<and> is_availability (own kvs ''availability'')
      \<and> (own kvs ''productionReady'' = None \<or> is_boolean (own kvs ''productionReady'')))"
| "is_scoring sr = False"

fun is_ValidationResult :: "json \<Rightarrow> bool" where
  "is_ValidationResult (JObj kvs) =
     (is_boolean (own kvs ''success'')
      \<and> is_findings (own kvs ''errors'') \<and> is_findings (own kvs ''warnings'')
      \<and> is_scoring (own kvs ''scoringResult''))"
| "is_ValidationResult r = False"

text \<open>A statement that never throws.\<close>

definition completes :: "stmt \<Rightarrow> bool" where
  "completes c \<longleftrightarrow> (\<forall>h. fst (c h) = None)"

section \<open>Basic facts about the model\<close>

lemma decimal_0: "decimal 0 = ''0''"
  by (simp add: decimal.simps digit_def)

lemma number_toString_nat: "number_toString (int n) = decimal n"
  by (simp add: number_toString_def)

lemma decimal_not_Nil: "decimal n \<noteq> []"
  by (subst decimal.simps) simp

lemma number_toString_not_Nil: "number_toString i \<noteq> []"
  by (simp add: number_toString_def decimal_not_Nil)

lemma seq_None: "a h = (None, h1) \<Longrightarrow> seq a b h = b h1"
  by (simp add: seq_def)

lemma seq_no_fault:
  "seq a b h = (None, h') \<Longrightarrow> \<exists>h1. a h = (None, h1) \<and> b h1 = (None, h')"
  by (auto simp: seq_def split: prod.splits option.splits)

lemma block_no_fault_last:
  "block (cs @ [c]) h = (None, h') \<Longrightarrow> \<exists>h1. c h1 = (None, h')"
proof (induction cs arbitrary: h)
  case Nil
  then show ?case by (auto simp: seq_def skip_def split: prod.splits option.splits)
next
  case (Cons a cs)
  from Cons.prems obtain h1 where "block (cs @ [c]) h1 = (None, h')"
    by (auto dest: seq_no_fault)
  then show ?case by (rule Cons.IH)
qed

subsection \<open>Statements that leave an output alone\<close>

lemma output_value_log [simp]: "output_value (h\<lparr>log := l\<rparr>) n = output_value h n"
  by (simp add: output_value_def)

lemma output_value_failed [simp]: "output_value (h\<lparr>failed := f\<rparr>) n = output_value h n"
  by (simp add: output_value_def)

lemma output_value_set [simp]:
  "output_value (h\<lparr>outputs := outputs h @ [(m, v)]\<rparr>) n = (if m = n then Some v else output_value h n)"
  by (simp add: output_value_def)

named_theorems leaves_intros

lemma leaves_skip [leaves_intros]: "leaves n skip"
  by (simp add: leaves_def skip_def)

lemma leaves_throw [leaves_intros]: "leaves n (throw e)"
  by (simp add: leaves_def throw_def)

lemma leaves_seq [leaves_intros]: "leaves n a \<Longrightarrow> leaves n b \<Longrightarrow> leaves n (seq a b)"
  by (auto simp: leaves_def seq_def split: prod.splits option.splits) (metis snd_conv)+

lemma leaves_block_Nil [leaves_intros]: "leaves n (block [])"
  by (simp add: leaves_skip)

lemma leaves_block_Cons [leaves_intros]:
  "leaves n c \<Longrightarrow> leaves n (block cs) \<Longrightarrow> leaves n (block (c # cs))"
  by (simp add: leaves_seq)

lemma leaves_eval [leaves_intros]: "(\<And>v. leaves n (k v)) \<Longrightarrow> leaves n (eval e k)"
  by (cases e) (simp_all add: leaves_def eval_def)

lemma leaves_if [leaves_intros]: "leaves n a \<Longrightarrow> leaves n b \<Longrightarrow> leaves n (if c then a else b)"
  by simp

lemma leaves_core_debug [leaves_intros]: "leaves n (core_debug s)"
  by (simp add: leaves_def core_debug_def)

lemma leaves_core_info [leaves_intros]: "leaves n (core_info s)"
  by (simp add: leaves_def core_info_def)

lemma leaves_core_warning [leaves_intros]: "leaves n (core_warning s)"
  by (simp add: leaves_def core_warning_def)

lemma leaves_core_error [leaves_intros]: "leaves n (core_error s)"
  by (simp add: leaves_def core_error_def)

lemma leaves_core_setFailed [leaves_intros]: "leaves n (core_setFailed m)"
  by (simp add: leaves_def core_setFailed_def)

lemma leaves_core_setOutput [leaves_intros]: "m \<noteq> n \<Longrightarrow> leaves n (core_setOutput m v)"
  by (simp add: leaves_def core_setOutput_def)

lemma leaves_forEach [leaves_intros]: "(\<And>x. leaves n (f x)) \<Longrightarrow> leaves n (forEach f xs)"
  by (induction xs) (simp_all add: leaves_skip leaves_seq)

lemma leaves_js_forEach [leaves_intros]: "(\<And>x. leaves n (f x)) \<Longrightarrow> leaves n (js_forEach v f)"
  by (auto simp: js_forEach_def leaves_throw leaves_forEach split: option.splits json.splits)

lemma leaves_display_findings:
  "(\<And>s. leaves n (emit s)) \<Longrightarrow> leaves n (display_findings rt result field emit heading)"
  unfolding display_findings_def by (intro leaves_intros) 

lemma leaves_display_errors: "leaves n (display_errors rt result)"
  unfolding display_errors_def by (intro leaves_display_findings leaves_core_error)

lemma leaves_display_warnings: "leaves n (display_warnings rt result)"
  unfolding display_warnings_def by (intro leaves_display_findings leaves_core_warning)

lemma leaves_report_passed: "leaves n report_passed"
  unfolding report_passed_def by (intro leaves_intros)

lemma leaves_decide: "leaves n (decide rt inp result)"
  unfolding decide_def by (intro leaves_intros leaves_report_passed)

lemma leaves_score_line: "leaves n (score_line label d)"
  unfolding score_line_def by (intro leaves_intros)

lemma leaves_display_scores: "leaves n (display_scores sr)"
  unfolding display_scores_def by (intro leaves_intros leaves_score_line)

lemma output_value_seq:
  "leaves n b \<Longrightarrow> output_value (snd (seq a b h)) n = output_value (snd (a h)) n"
  by (auto simp: leaves_def seq_def split: prod.splits option.splits)

lemma output_value_handle: "output_value (handle r) n = output_value (snd r) n"
  by (auto simp: handle_def core_setFailed_def split: prod.splits option.splits)

lemma announce_fst: "fst (announce inp p h) = None"
  by (simp add: announce_def seq_def core_info_def core_debug_def skip_def)

lemma announce_outputs: "outputs (snd (announce inp p h)) = outputs h"
  by (simp add: announce_def seq_def core_info_def core_debug_def skip_def)

lemma announce_failed: "failed (snd (announce inp p h)) = failed h"
  by (simp add: announce_def seq_def core_info_def core_debug_def skip_def)

lemma started_props:
  "outputs (started inp p) = []" "failed (started inp p) = None"
  "announce inp p host0 = (None, started inp p)"
  using announce_fst[of inp p host0]
  by (simp_all add: started_def announce_outputs announce_failed host0_def prod_eq_iff)

lemma run_parsed:
  "JSON_parse rt (output p) = Some result \<Longrightarrow>
   run rt inp p = handle (interpret_result rt inp result (started inp p))"
  using started_props[of inp p] by (simp add: run_def run_body_def seq_def)

lemma run_unparsed:
  "JSON_parse rt (output p) = None \<Longrightarrow>
   run rt inp p = handle (parse_failed p (started inp p))"
  using started_props[of inp p] by (simp add: run_def run_body_def seq_def)

lemma legacy_announce_fst: "fst (legacy_announce inp h) = None"
  by (simp add: legacy_announce_def seq_def core_info_def skip_def)

lemma legacy_announce_outputs: "outputs (snd (legacy_announce inp h)) = outputs h"
  by (simp add: legacy_announce_def seq_def core_info_def skip_def)

lemma legacy_announce_failed: "failed (snd (legacy_announce inp h)) = failed h"
  by (simp add: legacy_announce_def seq_def core_info_def skip_def)

lemma legacy_started_props:
  "outputs (legacy_started inp) = []" "failed (legacy_started inp) = None"
  "legacy_announce inp host0 = (None, legacy_started inp)"
  using legacy_announce_fst[of inp host0]
  by (simp_all add: legacy_started_def legacy_announce_outputs legacy_announce_failed host0_def
      prod_eq_iff)

lemma legacy_run_parsed:
  "JSON_parse rt (output p) = Some result \<Longrightarrow>
   legacy_run rt inp p = handle (legacy_interpret_result rt inp result (legacy_started inp))"
  by (simp add: legacy_run_def legacy_run_body_def seq_def legacy_started_props)

lemma legacy_run_unparsed:
  "JSON_parse rt (output p) = None \<Longrightarrow>
   legacy_run rt inp p = handle (legacy_parse_failed p (legacy_started inp))"
  by (simp add: legacy_run_def legacy_run_body_def seq_def legacy_started_props)

lemma sample_parse:
  "JSON_parse sample_runtime ''not json'' = None"
  "JSON_parse sample_runtime ''null'' = Some JNull"
  "JSON_parse sample_runtime ''5'' = Some (JNum 5)"
  "JSON_parse sample_runtime text_bare = Some doc_bare"
  "JSON_parse sample_runtime text_failed = Some doc_failed"
  "JSON_parse sample_runtime text_warned = Some doc_warned"
  "JSON_parse sample_runtime text_valid_only = Some doc_valid_only"
  "JSON_parse sample_runtime text_score_only = Some doc_score_only"
  "JSON_parse sample_runtime text_scored = Some doc_scored"
  "JSON_parse sample_runtime text_success_only = Some doc_success_only"
  "JSON_parse sample_runtime text_live = Some doc_live"
  "JSON_parse sample_runtime text_unscored = Some doc_unscored"
  "JSON_parse sample_runtime text_warned_legacy = Some doc_warned_legacy"
  by (simp_all add: sample_runtime_def table_runtime_def text_bare_def text_failed_def
      text_warned_def text_valid_only_def text_score_only_def text_scored_def
      text_success_only_def text_live_def text_unscored_def text_warned_legacy_def)

lemmas exec_defs = seq_def eval_def skip_def throw_def andThen_def
  core_setOutput_def core_info_def core_debug_def core_warning_def core_error_def core_setFailed_def

lemmas interpret_defs = interpret_result_def set_basic_outputs_def count_text_def count_value_def
  js_opt_get_def js_toString_call_def js_ToString_def scoring_def set_scoring_sentinels_def
  display_errors_def display_warnings_def display_findings_def decide_def failed_message_def

lemma interpret_result_last:
  "interpret_result rt inp result h = (None, h') \<Longrightarrow> \<exists>h1. decide rt inp result h1 = (None, h')"
  unfolding interpret_result_def
  using block_no_fault_last
    [of "[set_basic_outputs result, scoring result, display_errors rt result,
          display_warnings rt result]" "decide rt inp result" h h']
  by simp

lemma legacy_interpret_result_last:
  "legacy_interpret_result rt inp result h = (None, h') \<Longrightarrow>
   \<exists>h1. legacy_decide rt inp result h1 = (None, h')"
  unfolding legacy_interpret_result_def
  using block_no_fault_last
    [of "[legacy_set_basic_outputs result, legacy_scoring result, legacy_display_errors rt result,
          legacy_display_warnings rt result]" "legacy_decide rt inp result" h h']
  by simp

lemma decide_unsuccessful:
  "js_get (Some result) ''success'' = Inr s \<Longrightarrow> \<not> truthy s \<Longrightarrow>
   decide rt inp result h = (None, h') \<Longrightarrow> failed h' \<noteq> None"
  by (auto simp: decide_def exec_defs split: sum.splits)

lemma legacy_decide_unsuccessful:
  "js_get (Some result) ''valid'' = Inr s \<Longrightarrow> \<not> truthy s \<Longrightarrow>
   legacy_decide rt inp result h = (None, h') \<Longrightarrow> failed h' \<noteq> None"
  by (auto simp: legacy_decide_def exec_defs split: sum.splits)

lemma handle_fault: "failed (handle (Some e, h)) = Some (ErrorMessage e)"
  by (simp add: handle_def core_setFailed_def)

lemma handle_no_fault: "handle (None, h) = h"
  by (simp add: handle_def)

lemma seq_assoc: "seq (seq a b) c = seq a (seq b c)"
  by (rule ext) (simp add: seq_def split: prod.splits option.splits)

lemma seq_skip: "seq a skip = a"
  by (rule ext) (simp add: seq_def skip_def split: prod.splits option.splits)

lemma interpret_result_split:
  "interpret_result rt inp result =
     seq (seq (set_basic_outputs result) (scoring result))
       (block [display_errors rt result, display_warnings rt result, decide rt inp result])"
  by (simp add: interpret_result_def seq_assoc)

lemma output_value_interpret_result:
  "output_value (snd (interpret_result rt inp result h)) n =
   output_value (snd (seq (set_basic_outputs result) (scoring result) h)) n"
  unfolding interpret_result_split
  by (intro output_value_seq leaves_intros leaves_display_errors leaves_display_warnings
      leaves_decide)

lemma output_value_run:
  "JSON_parse rt (output p) = Some result \<Longrightarrow>
   output_value (run rt inp p) n =
   output_value (snd (seq (set_basic_outputs result) (scoring result) (started inp p))) n"
  by (simp add: run_parsed output_value_handle output_value_interpret_result)

lemma set_basic_outputs_ok:
  assumes "js_get (Some result) ''success'' = Inr s"
    and "count_text result ''errors'' = Inr ec"
    and "count_text result ''warnings'' = Inr wc"
  shows "set_basic_outputs result h =
    (None, h\<lparr>outputs := outputs h @
       [(''result'', if truthy s then ''passed'' else ''failed''),
        (''error-count'', ec), (''warning-count'', wc)]\<rparr>)"
  using assms by (simp add: set_basic_outputs_def exec_defs)

lemma js_get_not_null: "js_get (Some result) k = Inr v \<Longrightarrow> \<exists>s. js_get (Some result) ''success'' = Inr s"
  by (cases result) simp_all

lemma output_value_after_basic:
  assumes "js_get (Some result) k = Inr v"
    and "count_text result ''errors'' = Inr ec"
    and "count_text result ''warnings'' = Inr wc"
    and that: "JSON_parse rt (output p) = Some result"
  shows "\<exists>h1. output_value (run rt inp p) n = output_value (snd (scoring result h1)) n"
proof -
  from assms(1) obtain s where "js_get (Some result) ''success'' = Inr s"
    by (auto dest: js_get_not_null)
  from set_basic_outputs_ok[OF this assms(2,3)] show ?thesis
    by (auto simp add: output_value_run[OF that] seq_None)
qed

lemma scoring_absent:
  "js_get (Some result) ''scoringResult'' = Inr sr \<Longrightarrow> \<not> truthy sr \<Longrightarrow>
   scoring result h = (None, h\<lparr>outputs := outputs h @
     [(''compliance-score'', ''N/A''), (''trust-score'', ''N/A''),
      (''availability-score'', ''N/A''), (''production-ready'', ''false'')]\<rparr>)"
  by (simp add: scoring_def set_scoring_sentinels_def exec_defs)

lemma count_text_absent:
  "js_get (Some result) field = Inr None \<Longrightarrow> count_text result field = Inr ''0''"
  by (simp add: count_text_def count_value_def js_opt_get_def js_toString_call_def andThen_def
      number_toString_def decimal_0)

lemma count_text_array:
  "js_get (Some result) field = Inr (Some (JArr xs)) \<Longrightarrow>
   count_text result field = Inr (decimal (length xs))"
  by (cases xs) (simp_all add: count_text_def count_value_def js_opt_get_def js_toString_call_def
      andThen_def number_toString_def decimal_0 flip: of_nat_Suc)

lemma count_text_not_object:
  assumes "js_get (Some result) field = Inr v" and "\<And>kvs. v \<noteq> Some (JObj kvs)"
  shows "\<exists>c. count_text result field = Inr c"
proof (cases v)
  case None
  with assms(1) show ?thesis by (simp add: count_text_absent)
next
  case (Some j)
  with assms show ?thesis
    by (cases j)
      (auto simp: count_text_def count_value_def js_opt_get_def js_toString_call_def
        andThen_def)
qed

lemma display_findings_absent:
  "js_get (Some result) field = Inr None \<Longrightarrow>
   display_findings rt result field emit heading = skip"
  by (rule ext) (simp add: display_findings_def exec_defs)

lemma leaves_set_scoring_outputs:
  "n \<notin> {''compliance-score'', ''trust-score'', ''availability-score'', ''production-ready''} \<Longrightarrow>
   leaves n (set_scoring_outputs sr)"
  unfolding set_scoring_outputs_def by (intro leaves_intros) auto

lemma leaves_scoring:
  "n \<notin> {''compliance-score'', ''trust-score'', ''availability-score'', ''production-ready''} \<Longrightarrow>
   leaves n (scoring result)"
  unfolding scoring_def set_scoring_sentinels_def
  by (intro leaves_intros leaves_display_scores leaves_set_scoring_outputs) auto

lemma output_value_run_basic:
  assumes "JSON_parse rt (output p) = Some result"
    and "n \<in> {''result'', ''error-count'', ''warning-count''}"
  shows "output_value (run rt inp p) n =
         output_value (snd (set_basic_outputs result (started inp p))) n"
proof -
  from assms(2) have "leaves n (scoring result)"
    by (intro leaves_scoring) auto
  then show ?thesis
    by (simp add: output_value_run[OF assms(1)] output_value_seq)
qed

lemma basic_result_output:
  "js_get (Some result) ''success'' = Inr s \<Longrightarrow> outputs h = [] \<Longrightarrow>
   output_value (snd (set_basic_outputs result h)) ''result''
     = Some (if truthy s then ''passed'' else ''failed'')"
  by (simp add: set_basic_outputs_def exec_defs output_value_def split: sum.splits)



lemma score_text_absent:
  "dimension_total sr dim = Inr None \<Longrightarrow> score_text sr dim dflt = Inr dflt"
  by (simp add: score_text_def js_opt_toString_call_def or_default_def andThen_def)

lemma score_text_number:
  "dimension_total sr dim = Inr (Some (JNum n)) \<Longrightarrow>
   score_text sr dim dflt = Inr (number_toString n)"
  by (simp add: score_text_def js_opt_toString_call_def js_toString_call_def or_default_def
      andThen_def number_toString_not_Nil)

lemma eval_Inr_fun: "eval (Inr v) k = k v"
  by (rule ext) (simp add: eval_def)

lemma scoring_present:
  assumes "js_get (Some result) ''scoringResult'' = Inr sr" and "truthy sr"
  shows "output_value (snd (scoring result h)) n = output_value (snd (set_scoring_outputs sr h)) n"
proof -
  have "scoring result = seq (set_scoring_outputs sr) (display_scores sr)"
    using assms by (simp add: scoring_def eval_Inr_fun seq_skip)
  then show ?thesis
    by (simp add: output_value_seq leaves_display_scores)
qed

lemma compliance_score_output:
  "score_text sr ''compliance'' ''0'' = Inr c \<Longrightarrow>
   output_value (snd (set_scoring_outputs sr h)) ''compliance-score'' = Some c"
  by (simp add: set_scoring_outputs_def exec_defs output_value_def split: sum.splits)

lemma trust_score_output:
  "score_text sr ''compliance'' ''0'' = Inr c \<Longrightarrow> score_text sr ''trust'' ''0'' = Inr t \<Longrightarrow>
   output_value (snd (set_scoring_outputs sr h)) ''trust-score'' = Some t"
  by (simp add: set_scoring_outputs_def exec_defs output_value_def split: sum.splits)


lemma output_value_scored:
  assumes "JSON_parse rt (output p) = Some result"
    and "js_get (Some result) ''scoringResult'' = Inr sr" and "truthy sr"
    and "count_text result ''errors'' = Inr ec"
    and "count_text result ''warnings'' = Inr wc"
  shows "\<exists>h1. output_value (run rt inp p) n = output_value (snd (set_scoring_outputs sr h1)) n"
  using output_value_after_basic[OF assms(2,4,5,1), of inp n]
  by (auto simp add: scoring_present[OF assms(2,3)])

lemma run_unsuccessful:
  assumes "JSON_parse rt (output p) = Some result"
    and s: "js_get (Some result) ''success'' = Inr s" "\<not> truthy s"
  shows "failed (run rt inp p) \<noteq> None"
proof -
  obtain r h where r: "interpret_result rt inp result (started inp p) = (r, h)"
    by (cases "interpret_result rt inp result (started inp p)")
  show ?thesis
  proof (cases r)
    case None
    with r obtain h1 where "decide rt inp result h1 = (None, h)"
      by (auto dest: interpret_result_last)
    with s have "failed h \<noteq> None" by (rule decide_unsuccessful)
    with None r show ?thesis by (simp add: run_parsed[OF assms(1)] handle_no_fault)
  next
    case (Some e)
    with r show ?thesis by (simp add: run_parsed[OF assms(1)] handle_fault)
  qed
qed

lemma legacy_run_unsuccessful:
  assumes "JSON_parse rt (output p) = Some result"
    and v: "js_get (Some result) ''valid'' = Inr v" "\<not> truthy v"
  shows "failed (legacy_run rt inp p) \<noteq> None"
proof -
  obtain r h where r: "legacy_interpret_result rt inp result (legacy_started inp) = (r, h)"
    by (cases "legacy_interpret_result rt inp result (legacy_started inp)")
  show ?thesis
  proof (cases r)
    case None
    with r obtain h1 where "legacy_decide rt inp result h1 = (None, h)"
      by (auto dest: legacy_interpret_result_last)
    with v have "failed h \<noteq> None" by (rule legacy_decide_unsuccessful)
    with None r show ?thesis by (simp add: legacy_run_parsed[OF assms(1)] handle_no_fault)
  next
    case (Some e)
    with r show ?thesis by (simp add: legacy_run_parsed[OF assms(1)] handle_fault)
  qed
qed

lemma leaves_legacy_display_findings:
  "(\<And>s. leaves n (emit s)) \<Longrightarrow> leaves n (legacy_display_findings rt result field emit heading)"
  unfolding legacy_display_findings_def by (intro leaves_intros)

lemma leaves_legacy_display_errors: "leaves n (legacy_display_errors rt result)"
  unfolding legacy_display_errors_def by (intro leaves_legacy_display_findings leaves_core_error)

lemma leaves_legacy_display_warnings: "leaves n (legacy_display_warnings rt result)"
  unfolding legacy_display_warnings_def
  by (intro leaves_legacy_display_findings leaves_core_warning)

lemma leaves_legacy_decide: "leaves n (legacy_decide rt inp result)"
  unfolding legacy_decide_def by (intro leaves_intros leaves_report_passed)

lemma leaves_legacy_score_line: "leaves n (legacy_score_line label sr dim)"
  unfolding legacy_score_line_def by (intro leaves_intros)

lemma leaves_legacy_display_scores: "leaves n (legacy_display_scores sr)"
  unfolding legacy_display_scores_def by (intro leaves_intros leaves_legacy_score_line)

lemma leaves_legacy_scoring:
  "n \<notin> {''compliance-score'', ''trust-score'', ''availability-score'', ''production-ready''} \<Longrightarrow>
   leaves n (legacy_scoring result)"
  unfolding legacy_scoring_def legacy_set_scoring_outputs_def
  by (intro leaves_intros leaves_legacy_display_scores) auto

lemma output_value_legacy_run_result:
  assumes "JSON_parse rt (output p) = Some result"
  shows "output_value (legacy_run rt inp p) ''result'' =
         output_value (snd (legacy_set_basic_outputs result (legacy_started inp))) ''result''"
proof -
  have "legacy_interpret_result rt inp result =
      seq (legacy_set_basic_outputs result)
        (block [legacy_scoring result, legacy_display_errors rt result,
                legacy_display_warnings rt result, legacy_decide rt inp result])"
    by (simp add: legacy_interpret_result_def)
  moreover have "leaves ''result''
      (block [legacy_scoring result, legacy_display_errors rt result,
              legacy_display_warnings rt result, legacy_decide rt inp result])"
    by (intro leaves_intros leaves_legacy_scoring leaves_legacy_display_errors
        leaves_legacy_display_warnings leaves_legacy_decide) simp
  ultimately show ?thesis
    by (simp add: legacy_run_parsed[OF assms] output_value_handle output_value_seq)
qed

lemma legacy_basic_result_output:
  "js_get (Some result) ''valid'' = Inr s \<Longrightarrow> outputs h = [] \<Longrightarrow>
   output_value (snd (legacy_set_basic_outputs result h)) ''result''
     = Some (if truthy s then ''passed'' else ''failed'')"
  by (simp add: legacy_set_basic_outputs_def exec_defs output_value_def split: sum.splits)

lemma decide_warned:
  assumes "js_get (Some result) ''success'' = Inr s" "truthy s" "failOnWarnings inp"
    and "js_get (Some result) ''warnings'' = Inr (Some (JArr ws))" "ws \<noteq> []"
  shows "decide rt inp result h =
         (None, h\<lparr>failed := Some (Text (warnings_message (decimal (length ws))))\<rparr>)"
  using assms by (simp add: decide_def exec_defs js_ToString_def number_toString_nat)

lemma legacy_decide_warned:
  assumes "js_get (Some result) ''valid'' = Inr s" "truthy s" "failOnWarnings inp"
    and "js_get (Some result) ''warnings'' = Inr (Some (JArr ws))" "ws \<noteq> []"
  shows "legacy_decide rt inp result h =
         (None, h\<lparr>failed := Some (Text (warnings_message (decimal (length ws))))\<rparr>)"
  using assms
  by (simp add: legacy_decide_def legacy_length_def exec_defs js_ToString_def number_toString_nat)

lemma run_outcome:
  assumes "JSON_parse rt (output p) = Some result"
  shows "(\<exists>e. fst (run_body rt inp p host0) = Some e \<and> failed (run rt inp p) = Some (ErrorMessage e))
       \<or> (fst (run_body rt inp p host0) = None
            \<and> (\<exists>h1. decide rt inp result h1 = (None, run rt inp p)))"
proof -
  obtain r h where r: "interpret_result rt inp result (started inp p) = (r, h)"
    by (cases "interpret_result rt inp result (started inp p)")
  then have b: "run_body rt inp p host0 = (r, h)"
    using assms by (simp add: run_body_def seq_def started_props)
  show ?thesis
  proof (cases r)
    case None
    with r obtain h1 where "decide rt inp result h1 = (None, h)"
      by (auto dest: interpret_result_last)
    with None b show ?thesis by (auto simp: run_def handle_no_fault)
  next
    case (Some e)
    with b show ?thesis by (simp add: run_def handle_fault)
  qed
qed

lemma legacy_run_outcome:
  assumes "JSON_parse rt (output p) = Some result"
  shows "(\<exists>e. fst (legacy_run_body rt inp p host0) = Some e
            \<and> failed (legacy_run rt inp p) = Some (ErrorMessage e))
       \<or> (fst (legacy_run_body rt inp p host0) = None
            \<and> (\<exists>h1. legacy_decide rt inp result h1 = (None, legacy_run rt inp p)))"
proof -
  obtain r h where r: "legacy_interpret_result rt inp result (legacy_started inp) = (r, h)"
    by (cases "legacy_interpret_result rt inp result (legacy_started inp)")
  then have b: "legacy_run_body rt inp p host0 = (r, h)"
    using assms by (simp add: legacy_run_body_def seq_def legacy_started_props)
  show ?thesis
  proof (cases r)
    case None
    with r obtain h1 where "legacy_decide rt inp result h1 = (None, h)"
      by (auto dest: legacy_interpret_result_last)
    with None b show ?thesis by (auto simp: legacy_run_def handle_no_fault)
  next
    case (Some e)
    with b show ?thesis by (simp add: legacy_run_def handle_fault)
  qed
qed

subsection \<open>Well-shaped results never fault\<close>

named_theorems completes_intros

lemma completes_skip [completes_intros]: "completes skip"
  by (simp add: completes_def skip_def)

lemma fst_seq:
  "fst (seq a b h) = (case fst (a h) of None \<Rightarrow> fst (b (snd (a h))) | Some e \<Rightarrow> Some e)"
  by (simp add: seq_def split: prod.splits option.splits)

lemma completes_seq [completes_intros]: "completes a \<Longrightarrow> completes b \<Longrightarrow> completes (seq a b)"
  by (simp add: completes_def fst_seq)

lemma completes_block_Nil [completes_intros]: "completes (block [])"
  by (simp add: completes_skip)

lemma completes_block_Cons [completes_intros]:
  "completes c \<Longrightarrow> completes (block cs) \<Longrightarrow> completes (block (c # cs))"
  by (simp add: completes_seq)

lemma completes_eval: "e = Inr v \<Longrightarrow> completes (k v) \<Longrightarrow> completes (eval e k)"
  by (simp add: completes_def eval_def)

lemma completes_if [completes_intros]:
  "(c \<Longrightarrow> completes a) \<Longrightarrow> (\<not> c \<Longrightarrow> completes b) \<Longrightarrow> completes (if c then a else b)"
  by simp

lemma completes_core [completes_intros]:
  "completes (core_debug s)" "completes (core_info s)" "completes (core_warning s)"
  "completes (core_error s)" "completes (core_setFailed m)" "completes (core_setOutput n v)"
  by (simp_all add: completes_def exec_defs)

lemma completes_forEach:
  "(\<And>x. x \<in> set xs \<Longrightarrow> completes (f x)) \<Longrightarrow> completes (forEach f xs)"
  by (induction xs) (simp_all add: completes_skip completes_seq)

lemma is_booleanE: "is_boolean v \<Longrightarrow> (\<And>b. v = Some (JBool b) \<Longrightarrow> P) \<Longrightarrow> P"
  by (cases v rule: is_boolean.cases) simp_all

lemma is_numberE: "is_number v \<Longrightarrow> (\<And>n. v = Some (JNum n) \<Longrightarrow> P) \<Longrightarrow> P"
  by (cases v rule: is_number.cases) simp_all

lemma is_stringE: "is_string v \<Longrightarrow> (\<And>s. v = Some (JStr s) \<Longrightarrow> P) \<Longrightarrow> P"
  by (cases v rule: is_string.cases) simp_all

lemma is_findingE:
  assumes "is_finding f"
  obtains s where "f = JStr s"
  | kvs m where "f = JObj kvs" "own kvs ''message'' = Some (JStr m)" "m \<noteq> []"
  using assms by (cases f rule: is_finding.cases) (auto elim!: is_stringE)

lemma is_findingsE:
  assumes "is_findings v"
  obtains "v = None" | fs where "v = Some (JArr fs)" "list_all is_finding fs"
  using assms by (cases v rule: is_findings.cases) auto

lemma finding_line_ok: "is_finding f \<Longrightarrow> \<exists>s. finding_line f = Inr s"
  by (erule is_findingE) (simp_all add: finding_line_def andThen_def js_ToString_def)

lemma js_ToString_nat: "js_ToString (Some (JNum (int n))) = Inr (decimal n)"
  by (simp add: js_ToString_def number_toString_nat)

lemma completes_display_findings:
  assumes "js_get (Some result) field = Inr v" and "is_findings v"
    and "\<And>s. completes (emit s)"
  shows "completes (display_findings rt result field emit heading)"
proof (cases v)
  case None
  with assms(1) show ?thesis
    by (simp add: display_findings_absent completes_skip)
next
  case (Some j)
  with assms(2) obtain fs where j: "j = JArr fs" and fs: "list_all is_finding fs"
    by (auto elim: is_findingsE)
  have "completes (forEach (\<lambda>f. eval (finding_line f) emit) fs)"
  proof (rule completes_forEach)
    fix x assume "x \<in> set fs"
    with fs have "is_finding x" by (simp add: list_all_iff)
    then obtain s where "finding_line x = Inr s" by (auto dest: finding_line_ok)
    then show "completes (eval (finding_line x) emit)"
      by (rule completes_eval) (rule assms(3))
  qed
  then have "completes (js_forEach (Some (JArr fs)) (\<lambda>f. eval (finding_line f) emit))"
    by (simp add: js_forEach_def)
  then have "completes (block
      [core_info [],
       eval (andThen (js_get (Some (JArr fs)) ''length'') js_ToString) (\<lambda>n. emit (heading n)),
       js_forEach (Some (JArr fs)) (\<lambda>f. eval (finding_line f) emit)])"
    by (intro completes_intros completes_eval[where v = "decimal (length fs)"] assms(3))
      (simp add: andThen_def js_ToString_nat)
  then have "completes (eval (andThen (js_get (Some (JArr fs)) ''length'') (js_gt_zero rt))
      (\<lambda>positive. if \<not> positive then skip else block
         [core_info [],
          eval (andThen (js_get (Some (JArr fs)) ''length'') js_ToString) (\<lambda>n. emit (heading n)),
          js_forEach (Some (JArr fs)) (\<lambda>f. eval (finding_line f) emit)]))"
    by (intro completes_eval[where v = "fs \<noteq> []"]) (simp_all add: andThen_def completes_skip)
  then show ?thesis
    unfolding display_findings_def using assms(1) Some j
    by (intro completes_eval[where v = "Some (JArr fs)"]) simp_all
qed

lemma count_text_findings:
  "js_get (Some result) field = Inr v \<Longrightarrow> is_findings v \<Longrightarrow> \<exists>c. count_text result field = Inr c"
  by (auto elim!: is_findingsE simp: count_text_absent count_text_array)

lemma count_ToString_findings:
  "js_get (Some result) field = Inr v \<Longrightarrow> is_findings v \<Longrightarrow>
   \<exists>c. andThen (andThen (js_get (Some result) field) count_value) js_ToString = Inr c"
  by (erule is_findingsE) (simp_all add: count_value_def js_opt_get_def andThen_def js_ToString_def)

lemma completes_set_basic_outputs:
  assumes "js_get (Some result) ''errors'' = Inr e" "is_findings e"
    and "js_get (Some result) ''warnings'' = Inr w" "is_findings w"
  shows "completes (set_basic_outputs result)"
proof -
  from assms(1) obtain s where s: "js_get (Some result) ''success'' = Inr s"
    by (auto dest: js_get_not_null)
  from count_text_findings[OF assms(1,2)] count_text_findings[OF assms(3,4)]
  obtain ec wc where "count_text result ''errors'' = Inr ec" "count_text result ''warnings'' = Inr wc"
    by blast
  from set_basic_outputs_ok[OF s this] show ?thesis
    by (simp add: completes_def)
qed

lemma completes_decide:
  assumes "js_get (Some result) ''success'' = Inr s"
    and "js_get (Some result) ''errors'' = Inr e" "is_findings e"
    and "js_get (Some result) ''warnings'' = Inr w" "is_findings w"
  shows "completes (decide rt inp result)"
proof -
  from count_ToString_findings[OF assms(2,3)] obtain c
    where c: "andThen (andThen (js_get (Some result) ''errors'') count_value) js_ToString = Inr c"
    by blast
  have r: "\<And>h. fst (report_passed h) = None"
    by (simp add: report_passed_def exec_defs)
  show ?thesis
  proof (rule is_findingsE[OF assms(5)])
    assume "w = None"
    with assms(1,4) c r show ?thesis
      by (simp add: completes_def decide_def exec_defs)
  next
    fix fs assume "w = Some (JArr fs)"
    with assms(1,4) c r show ?thesis
      by (simp add: completes_def decide_def exec_defs js_ToString_nat)
  qed
qed

lemma completes_evalI: "\<exists>v. e = Inr v \<Longrightarrow> (\<And>v. completes (k v)) \<Longrightarrow> completes (eval e k)"
  by (auto intro: completes_eval)

lemma is_dimensionE:
  assumes "is_dimension d"
  obtains kvs n r where "d = Some (JObj kvs)" "own kvs ''total'' = Some (JNum n)"
    "own kvs ''rating'' = Some (JStr r)"
  using assms by (cases d rule: is_dimension.cases) (auto elim!: is_numberE is_stringE)

lemma completes_score_line:
  assumes "js_get d ''total'' = Inr t" "js_get d ''rating'' = Inr r"
    and "\<exists>s. js_ToString t = Inr s" "\<exists>s. js_ToString r = Inr s"
  shows "completes (score_line label d)"
  using assms by (auto simp: score_line_def completes_def exec_defs)

lemma dimension_ok:
  assumes "is_dimension d" and "js_get sr dim = Inr d"
  shows "\<exists>c. score_text sr dim dflt = Inr c" and "truthy d" and "completes (score_line label d)"
proof -
  from assms(1) obtain kvs n r where d: "d = Some (JObj kvs)"
    "own kvs ''total'' = Some (JNum n)" "own kvs ''rating'' = Some (JStr r)"
    by (rule is_dimensionE)
  with assms(2) have "dimension_total sr dim = Inr (Some (JNum n))"
    by (simp add: dimension_total_def andThen_def js_opt_get_def)
  then show "\<exists>c. score_text sr dim dflt = Inr c"
    by (auto dest: score_text_number)
  show "truthy d" using d by simp
  show "completes (score_line label d)"
    using d by (intro completes_score_line[where t = "Some (JNum n)" and r = "Some (JStr r)"])
      (simp_all add: js_ToString_def)
qed

lemma availability_ok:
  assumes "is_availability d" and "js_get sr ''availability'' = Inr d"
  shows "\<exists>c. score_text sr ''availability'' dflt = Inr c"
    and "completes (if truthy d
           then eval (js_get d ''total'') (\<lambda>t.
                  if t \<noteq> Some JNull then score_line ''Availability'' d else skip)
           else skip)"
proof -
  consider "d = None" | "d = Some JNull"
    | kvs t r where "d = Some (JObj kvs)" "own kvs ''total'' = Some t" "t = JNull \<or> (\<exists>n. t = JNum n)"
        "own kvs ''rating'' = Some r" "r = JNull \<or> (\<exists>s. r = JStr s)"
    using assms(1)
    by (cases d rule: is_availability.cases) (auto elim!: is_numberE is_stringE)
  then have "(\<exists>c. score_text sr ''availability'' dflt = Inr c)
      \<and> completes (if truthy d
           then eval (js_get d ''total'') (\<lambda>t.
                  if t \<noteq> Some JNull then score_line ''Availability'' d else skip)
           else skip)"
  proof cases
    case 1
    with assms(2) show ?thesis
      by (simp add: score_text_def dimension_total_def andThen_def js_opt_get_def
          js_opt_toString_call_def completes_skip)
  next
    case 2
    with assms(2) show ?thesis
      by (simp add: score_text_def dimension_total_def andThen_def js_opt_get_def
          js_opt_toString_call_def completes_skip)
  next
    case 3
    have "completes (score_line ''Availability'' d)"
      using 3 by (intro completes_score_line[where t = "Some t" and r = "Some r"])
        (auto simp: js_ToString_def)
    with 3 assms(2) show ?thesis
      by (auto simp: score_text_def dimension_total_def andThen_def js_opt_get_def
          js_opt_toString_call_def js_toString_call_def completes_skip
          intro!: completes_eval[where v = "Some t"])
  qed
  then show "\<exists>c. score_text sr ''availability'' dflt = Inr c"
    and "completes (if truthy d
           then eval (js_get d ''total'') (\<lambda>t.
                  if t \<noteq> Some JNull then score_line ''Availability'' d else skip)
           else skip)"
    by simp_all
qed

lemma completes_scoring:
  assumes "js_get (Some result) ''scoringResult'' = Inr sr" and "is_scoring sr"
  shows "completes (scoring result)"
proof (cases sr)
  case None
  with assms(1) show ?thesis
    by (simp add: completes_def scoring_absent)
next
  case (Some j)
  with assms(2) obtain kvs where sr: "sr = Some (JObj kvs)"
    and c: "is_dimension (own kvs ''compliance'')" and t: "is_dimension (own kvs ''trust'')"
    and a: "is_availability (own kvs ''availability'')"
    and p: "own kvs ''productionReady'' = None \<or> (\<exists>b. own kvs ''productionReady'' = Some (JBool b))"
    by (cases sr rule: is_scoring.cases) (auto elim!: is_booleanE)
  have g: "js_get sr k = Inr (own kvs k)" for k
    by (simp add: sr)
  note dc = dimension_ok[OF c g] and dt = dimension_ok[OF t g] and da = availability_ok[OF a g]
  have pr: "\<exists>c. andThen (js_get sr ''productionReady'')
      (\<lambda>p. js_toString_call (if truthy p then p else Some (JBool False))) = Inr c"
    using p by (auto simp: g andThen_def js_toString_call_def)
  have "completes (set_scoring_outputs sr)"
    unfolding set_scoring_outputs_def
    by (intro completes_intros completes_evalI dc dt da pr)
  moreover have "completes (display_scores sr)"
    unfolding display_scores_def
    by (intro completes_intros completes_eval[OF g] dc dt da)
  ultimately have "completes (block [set_scoring_outputs sr, display_scores sr])"
    by (intro completes_intros)
  then show ?thesis
    using assms(1) sr by (simp add: scoring_def eval_Inr_fun)
qed

lemma ValidationResult_completes:
  assumes "is_ValidationResult result"
  shows "completes (interpret_result rt inp result)"
proof -
  from assms obtain kvs where r: "result = JObj kvs"
    by (cases result) simp_all
  have g: "js_get (Some result) k = Inr (own kvs k)" for k
    by (simp add: r)
  from assms r have e: "is_findings (own kvs ''errors'')" and w: "is_findings (own kvs ''warnings'')"
    and s: "is_scoring (own kvs ''scoringResult'')"
    by simp_all
  show ?thesis
    unfolding interpret_result_def display_errors_def display_warnings_def
    by (intro completes_intros completes_set_basic_outputs[OF g e g w] completes_scoring[OF g s]
        completes_display_findings[OF g e] completes_display_findings[OF g w]
        completes_decide[OF g g e g w])
qed

lemma ValidationResult_no_fault:
  assumes "JSON_parse rt (output p) = Some result" and "is_ValidationResult result"
  shows "fst (run_body rt inp p host0) = None"
  using assms(1) ValidationResult_completes[OF assms(2), of rt inp]
  by (simp add: run_body_def fst_seq announce_fst completes_def)

lemmas count_defs = count_text_def count_value_def js_opt_get_def js_toString_call_def
  andThen_def number_toString_def decimal_0 own_def

section \<open>The claims\<close>

subsection \<open>Unsuccessful results\<close>

text \<open>
  C1. Whenever the parsed value's pass/fail field is falsy (\<open>false\<close>, and likewise a
  missing, \<open>null\<close>, zero or empty one), the job ends failed, whatever the inputs
  (\<open>failOnWarnings\<close> and the other flags in \<open>inp\<close>), the exit code and the rest of the
  value are, and also when a fault interrupts the run: the field is \<open>success\<close> for
  src/index.ts and \<open>valid\<close> for the older variant.
\<close>

theorem unsuccessful_result_fails_job:
  assumes "JSON_parse rt (output p) = Some result"
  shows "(js_get (Some result) ''success'' = Inr s \<and> \<not> truthy s
            \<longrightarrow> failed (run rt inp p) \<noteq> None)
       \<and> (js_get (Some result) ''valid'' = Inr v \<and> \<not> truthy v
            \<longrightarrow> failed (legacy_run rt inp p) \<noteq> None)"
  using run_unsuccessful[OF assms] legacy_run_unsuccessful[OF assms] by blast

theorem unsuccessful_result_fails_job_witness:
  "JSON_parse sample_runtime (output (sample_process 0 text_failed)) = Some doc_failed
   \<and> js_get (Some doc_failed) ''success'' = Inr (Some (JBool False))
   \<and> \<not> truthy (Some (JBool False))
   \<and> failed (run sample_runtime (sample_inputs False) (sample_process 0 text_failed)) \<noteq> None
   \<and> js_get (Some doc_failed) ''valid'' = Inr None
   \<and> \<not> truthy None
   \<and> failed (legacy_run sample_runtime (sample_inputs False) (sample_process 0 text_failed))
       \<noteq> None"
  using unsuccessful_result_fails_job
    [where rt = sample_runtime and p = "sample_process 0 text_failed" and result = doc_failed
       and s = "Some (JBool False)" and inp = "sample_inputs False" and v = None]
  by (simp add: sample_parse sample_process_def doc_failed_def own_def)

subsection \<open>Unparseable output\<close>

text \<open>
  C2 (amended). When JSON.parse throws on the validator's stdout, src/index.ts sets no
  output, fails the job with the message "Validation failed with exit code N" (the exit
  code always, zero included), and adds three error lines to the log: "Failed to parse
  validation output as JSON", the raw stdout and the raw stderr. \<open>run\<close> is a total
  function, so no fault escapes. The older variant sets no output either, fails with
  "Failed to parse validation output: " followed by the raw stdout, and logs nothing.
\<close>

theorem parse_failure_outcome:
  assumes "JSON_parse rt (output p) = None"
  shows "outputs (run rt inp p) = []
    \<and> failed (run rt inp p) =
        Some (Text (''Validation failed with exit code '' @ number_toString (exitCode p)))
    \<and> log (run rt inp p) = log (started inp p) @
        [(Error, ''Failed to parse validation output as JSON''),
         (Error, ''Raw output: '' @ output p),
         (Error, ''Error output: '' @ errorOutput p)]
    \<and> outputs (legacy_run rt inp p) = []
    \<and> failed (legacy_run rt inp p) =
        Some (Text (''Failed to parse validation output: '' @ output p))
    \<and> log (legacy_run rt inp p) = log (legacy_started inp)"
  using assms
  by (simp add: run_unparsed legacy_run_unparsed parse_failed_def legacy_parse_failed_def
      handle_def exec_defs started_props legacy_started_props)

theorem parse_failure_outcome_witness:
  "JSON_parse sample_runtime (output (sample_process 1 ''not json'')) = None
   \<and> outputs (run sample_runtime (sample_inputs False) (sample_process 1 ''not json'')) = []
   \<and> failed (run sample_runtime (sample_inputs False) (sample_process 1 ''not json''))
       = Some (Text ''Validation failed with exit code 1'')"
  using parse_failure_outcome
    [of sample_runtime "sample_process 1 ''not json''" "sample_inputs False"]
  by (simp add: sample_parse sample_process_def number_toString_def decimal.simps digit_def)

text \<open>
  C2 as stated asks for the failure message "Failed to parse validation output" together
  with logged stdout and stderr. On the stdout \<open>not json\<close> with exit code 1, src/index.ts
  fails with a message that does not start so, and the older variant, whose message does,
  logs its three banners only.
\<close>

theorem parse_failure_message_counterexample:
  "JSON_parse sample_runtime ''not json'' = None
   \<and> failed (run sample_runtime (sample_inputs False) (sample_process 1 ''not json''))
       = Some (Text ''Validation failed with exit code 1'')
   \<and> \<not> prefix ''Failed to parse validation output'' ''Validation failed with exit code 1''
   \<and> map fst (log (legacy_run sample_runtime (sample_inputs False) (sample_process 1 ''not json'')))
       = [Info, Info, Info]"
  by (simp add: sample_parse run_unparsed legacy_run_unparsed parse_failed_def
      legacy_parse_failed_def handle_def exec_defs sample_process_def number_toString_def
      decimal.simps digit_def legacy_started_def legacy_announce_def host0_def)

subsection \<open>The pass/fail key\<close>

text \<open>
  C3 (amended). Each variant resolves the pass/fail indicator from one key only:
  src/index.ts from \<open>success\<close>, the older variant from \<open>valid\<close>. The output
  \<open>result\<close> is \<open>passed\<close> exactly when the value under that key is truthy, and a falsy
  or missing value fails the job.
\<close>

theorem result_read_from_one_key:
  assumes "JSON_parse rt (output p) = Some result"
  shows "(js_get (Some result) ''success'' = Inr s \<longrightarrow>
            output_value (run rt inp p) ''result''
              = Some (if truthy s then ''passed'' else ''failed'')
          \<and> (\<not> truthy s \<longrightarrow> failed (run rt inp p) \<noteq> None))
       \<and> (js_get (Some result) ''valid'' = Inr v \<longrightarrow>
            output_value (legacy_run rt inp p) ''result''
              = Some (if truthy v then ''passed'' else ''failed'')
          \<and> (\<not> truthy v \<longrightarrow> failed (legacy_run rt inp p) \<noteq> None))"
  using assms
  by (simp add: output_value_run_basic basic_result_output started_props
      output_value_legacy_run_result legacy_basic_result_output legacy_started_props
      run_unsuccessful legacy_run_unsuccessful)

theorem result_read_from_one_key_witness:
  "JSON_parse sample_runtime (output (sample_process 0 text_failed)) = Some doc_failed
   \<and> js_get (Some doc_failed) ''success'' = Inr (Some (JBool False))
   \<and> \<not> truthy (Some (JBool False))
   \<and> output_value (run sample_runtime (sample_inputs False) (sample_process 0 text_failed))
         ''result'' = Some ''failed''
   \<and> failed (run sample_runtime (sample_inputs False) (sample_process 0 text_failed)) \<noteq> None
   \<and> js_get (Some doc_failed) ''valid'' = Inr None
   \<and> \<not> truthy None
   \<and> output_value (legacy_run sample_runtime (sample_inputs False) (sample_process 0 text_failed))
         ''result'' = Some ''failed''
   \<and> failed (legacy_run sample_runtime (sample_inputs False) (sample_process 0 text_failed))
       \<noteq> None"
  using result_read_from_one_key
    [where rt = sample_runtime and p = "sample_process 0 text_failed" and result = doc_failed
       and s = "Some (JBool False)" and inp = "sample_inputs False" and v = None]
  by (simp add: sample_parse sample_process_def doc_failed_def own_def)

text \<open>
  C3 as stated has a document that carries only \<open>valid: true\<close> behave like one that
  carries \<open>success: true\<close>. Under src/index.ts the first yields \<open>result = failed\<close> and a
  failed job, the second \<open>result = passed\<close> and a successful one.
\<close>

theorem legacy_key_counterexample:
  "JSON_parse sample_runtime text_valid_only = Some doc_valid_only
   \<and> JSON_parse sample_runtime text_success_only = Some doc_success_only
   \<and> output_value (run sample_runtime (sample_inputs False) (sample_process 0 text_valid_only))
         ''result'' = Some ''failed''
   \<and> failed (run sample_runtime (sample_inputs False) (sample_process 0 text_valid_only))
       = Some (Text ''Validation failed with 0 error(s)'')
   \<and> output_value (run sample_runtime (sample_inputs False) (sample_process 0 text_success_only))
         ''result'' = Some ''passed''
   \<and> failed (run sample_runtime (sample_inputs False) (sample_process 0 text_success_only))
       = None"
  by code_simp

subsection \<open>Warnings under the fail-on-warnings policy\<close>

text \<open>
  C4. When the pass/fail field is truthy, \<open>warnings\<close> is a non-empty array and
  \<open>failOnWarnings\<close> is set, the decision step (lines 142 to 150) fails the job with
  "Validation passed but found N warning(s) (fail-on-warnings enabled)", N being the
  number of warnings. The run as a whole ends failed, and never with the message of an
  unsuccessful validation ("Validation failed with N error(s)"); its message is the one
  of the decision step whenever no runtime fault interrupts it, which is the case for
  every value of the shape \<open>is_ValidationResult\<close>. (A fault before the decision, as a
  \<open>null\<close> entry among the findings raises, fails the job with the runtime's message
  instead.) The same holds for the older variant with the field \<open>valid\<close>.
\<close>

theorem warnings_fail_under_policy:
  assumes "JSON_parse rt (output p) = Some result" and "failOnWarnings inp"
    and "js_get (Some result) ''warnings'' = Inr (Some (JArr ws))" and "ws \<noteq> []"
  shows "(js_get (Some result) ''success'' = Inr s \<and> truthy s \<longrightarrow>
            decide rt inp result h = (None, h\<lparr>failed := Some (Text
              (''Validation passed but found '' @ decimal (length ws)
                @ '' warning(s) (fail-on-warnings enabled)''))\<rparr>)
          \<and> failed (run rt inp p) \<noteq> None
          \<and> failed (run rt inp p) \<noteq> Some (Text (''Validation failed with '' @ n @ '' error(s)''))
          \<and> (fst (run_body rt inp p host0) = None \<or> is_ValidationResult result \<longrightarrow>
               failed (run rt inp p) = Some (Text
                 (''Validation passed but found '' @ decimal (length ws)
                   @ '' warning(s) (fail-on-warnings enabled)''))))
       \<and> (js_get (Some result) ''valid'' = Inr v \<and> truthy v \<longrightarrow>
            legacy_decide rt inp result h = (None, h\<lparr>failed := Some (Text
              (''Validation passed but found '' @ decimal (length ws)
                @ '' warning(s) (fail-on-warnings enabled)''))\<rparr>)
          \<and> failed (legacy_run rt inp p) \<noteq> None
          \<and> failed (legacy_run rt inp p)
               \<noteq> Some (Text (''Validation failed with '' @ n @ '' error(s)''))
          \<and> (fst (legacy_run_body rt inp p host0) = None \<longrightarrow>
               failed (legacy_run rt inp p) = Some (Text
                 (''Validation passed but found '' @ decimal (length ws)
                   @ '' warning(s) (fail-on-warnings enabled)''))))"
proof -
  let ?msg = "Text (''Validation passed but found '' @ decimal (length ws)
    @ '' warning(s) (fail-on-warnings enabled)'')"
  have m: "Text (warnings_message (decimal (length ws))) = ?msg"
    by (simp add: warnings_message_def)
  have new: "decide rt inp result h = (None, h\<lparr>failed := Some ?msg\<rparr>)
      \<and> failed (run rt inp p) \<noteq> None
      \<and> failed (run rt inp p) \<noteq> Some (Text (''Validation failed with '' @ n @ '' error(s)''))
      \<and> (fst (run_body rt inp p host0) = None \<or> is_ValidationResult result \<longrightarrow>
           failed (run rt inp p) = Some ?msg)"
    if s: "js_get (Some result) ''success'' = Inr s" "truthy s"
  proof -
    note d = decide_warned[OF s assms(2,3,4), of rt, unfolded m]
    have nf: "fst (run_body rt inp p host0) = None" if "is_ValidationResult result"
      using assms(1) that by (rule ValidationResult_no_fault)
    from run_outcome[OF assms(1), of inp]
    have "failed (run rt inp p) \<noteq> None
      \<and> failed (run rt inp p) \<noteq> Some (Text (''Validation failed with '' @ n @ '' error(s)''))
      \<and> (fst (run_body rt inp p host0) = None \<longrightarrow> failed (run rt inp p) = Some ?msg)"
    proof (elim disjE exE conjE)
      fix e
      assume "fst (run_body rt inp p host0) = Some e"
        "failed (run rt inp p) = Some (ErrorMessage e)"
      then show ?thesis by simp
    next
      fix h1
      assume "fst (run_body rt inp p host0) = None"
        "decide rt inp result h1 = (None, run rt inp p)"
      with d[of h1] have "run rt inp p = h1\<lparr>failed := Some ?msg\<rparr>"
        by simp
      then have "failed (run rt inp p) = Some ?msg"
        by simp
      then show ?thesis by simp
    qed
    with d[of h] nf show ?thesis by blast
  qed
  have old: "legacy_decide rt inp result h = (None, h\<lparr>failed := Some ?msg\<rparr>)
      \<and> failed (legacy_run rt inp p) \<noteq> None
      \<and> failed (legacy_run rt inp p)
           \<noteq> Some (Text (''Validation failed with '' @ n @ '' error(s)''))
      \<and> (fst (legacy_run_body rt inp p host0) = None \<longrightarrow>
           failed (legacy_run rt inp p) = Some ?msg)"
    if v: "js_get (Some result) ''valid'' = Inr v" "truthy v"
  proof -
    note d = legacy_decide_warned[OF v assms(2,3,4), of rt, unfolded m]
    from legacy_run_outcome[OF assms(1), of inp]
    have "failed (legacy_run rt inp p) \<noteq> None
      \<and> failed (legacy_run rt inp p)
           \<noteq> Some (Text (''Validation failed with '' @ n @ '' error(s)''))
      \<and> (fst (legacy_run_body rt inp p host0) = None \<longrightarrow>
           failed (legacy_run rt inp p) = Some ?msg)"
    proof (elim disjE exE conjE)
      fix e
      assume "fst (legacy_run_body rt inp p host0) = Some e"
        "failed (legacy_run rt inp p) = Some (ErrorMessage e)"
      then show ?thesis by simp
    next
      fix h1
      assume "fst (legacy_run_body rt inp p host0) = None"
        "legacy_decide rt inp result h1 = (None, legacy_run rt inp p)"
      with d[of h1] have "legacy_run rt inp p = h1\<lparr>failed := Some ?msg\<rparr>"
        by simp
      then have "failed (legacy_run rt inp p) = Some ?msg"
        by simp
      then show ?thesis by simp
    qed
    with d[of h] show ?thesis by blast
  qed
  from new old show ?thesis by blast
qed

theorem warnings_fail_under_policy_witness:
  "JSON_parse sample_runtime (output (sample_process 0 text_warned)) = Some doc_warned
   \<and> failOnWarnings (sample_inputs True)
   \<and> js_get (Some doc_warned) ''warnings''
       = Inr (Some (JArr [JObj [(''message'', JStr ''deprecated field'')]]))
   \<and> js_get (Some doc_warned) ''success'' = Inr (Some (JBool True))
   \<and> truthy (Some (JBool True))
   \<and> is_ValidationResult doc_warned
   \<and> fst (run_body sample_runtime (sample_inputs True) (sample_process 0 text_warned) host0)
       = None
   \<and> failed (run sample_runtime (sample_inputs True) (sample_process 0 text_warned))
       = Some (Text ''Validation passed but found 1 warning(s) (fail-on-warnings enabled)'')
   \<and> JSON_parse sample_runtime (output (sample_process 0 text_warned_legacy))
       = Some doc_warned_legacy
   \<and> js_get (Some doc_warned_legacy) ''valid'' = Inr (Some (JBool True))
   \<and> fst (legacy_run_body sample_runtime (sample_inputs True)
         (sample_process 0 text_warned_legacy) host0) = None
   \<and> failed (legacy_run sample_runtime (sample_inputs True) (sample_process 0 text_warned_legacy))
       = Some (Text ''Validation passed but found 1 warning(s) (fail-on-warnings enabled)'')"
proof -
  have a: "fst (run_body sample_runtime (sample_inputs True) (sample_process 0 text_warned)
      host0) = None"
    by code_simp
  have b: "fst (legacy_run_body sample_runtime (sample_inputs True)
      (sample_process 0 text_warned_legacy) host0) = None"
    by code_simp
  show ?thesis
    using a b
      warnings_fail_under_policy
        [where rt = sample_runtime and p = "sample_process 0 text_warned"
           and result = doc_warned and inp = "sample_inputs True"
           and ws = "[JObj [(''message'', JStr ''deprecated field'')]]"
           and s = "Some (JBool True)" and v = None and n = "[]"]
      warnings_fail_under_policy
        [where rt = sample_runtime and p = "sample_process 0 text_warned_legacy"
           and result = doc_warned_legacy and inp = "sample_inputs True"
           and ws = "[JObj [(''message'', JStr ''deprecated field'')]]"
           and s = None and v = "Some (JBool True)" and n = "[]"]
    by (simp add: sample_parse sample_process_def sample_inputs_def doc_warned_def
        doc_warned_legacy_def own_def decimal.simps digit_def)
qed

subsection \<open>Scoring outputs\<close>






text \<open>
  C9. When \<open>scoringResult\<close> is present, a \<open>compliance\<close> dimension without a
  \<open>total\<close> (the dimension itself may be missing) makes the expression of line 87
  evaluate to \<open>0\<close>, and likewise \<open>trust\<close> and line 88. When the count outputs could
  be rendered, the output \<open>compliance-score\<close> is then \<open>0\<close> at the end of the run, and
  so is \<open>trust-score\<close>, provided the compliance score before it could be rendered.
\<close>

theorem missing_total_renders_zero:
  assumes "JSON_parse rt (output p) = Some result"
    and "js_get (Some result) ''scoringResult'' = Inr sr" and "truthy sr"
    and "count_text result ''errors'' = Inr ec"
    and "count_text result ''warnings'' = Inr wc"
  shows "(dimension_total sr ''compliance'' = Inr None \<longrightarrow>
            score_text sr ''compliance'' ''0'' = Inr ''0''
          \<and> output_value (run rt inp p) ''compliance-score'' = Some ''0'')
       \<and> (dimension_total sr ''trust'' = Inr None \<longrightarrow>
            score_text sr ''trust'' ''0'' = Inr ''0''
          \<and> (score_text sr ''compliance'' ''0'' = Inr c \<longrightarrow>
               output_value (run rt inp p) ''trust-score'' = Some ''0''))"
proof (intro conjI impI; (elim conjE)?)
  assume "dimension_total sr ''compliance'' = Inr None"
  then show st: "score_text sr ''compliance'' ''0'' = Inr ''0''"
    by (rule score_text_absent)
  with output_value_scored[OF assms, of inp "''compliance-score''"]
  show "output_value (run rt inp p) ''compliance-score'' = Some ''0''"
    by (auto simp: compliance_score_output)
next
  assume "dimension_total sr ''trust'' = Inr None"
  then show "score_text sr ''trust'' ''0'' = Inr ''0''"
    by (simp add: score_text_absent)
next
  assume "dimension_total sr ''trust'' = Inr None" and c: "score_text sr ''compliance'' ''0'' = Inr c"
  then have "score_text sr ''trust'' ''0'' = Inr ''0''"
    by (simp add: score_text_absent)
  with output_value_scored[OF assms, of inp "''trust-score''"] c
  show "output_value (run rt inp p) ''trust-score'' = Some ''0''"
    by (auto simp: trust_score_output)
qed

theorem missing_total_renders_zero_witness:
  "JSON_parse sample_runtime (output (sample_process 0 text_unscored)) = Some doc_unscored
   \<and> js_get (Some doc_unscored) ''scoringResult'' = Inr (Some (JObj []))
   \<and> truthy (Some (JObj []))
   \<and> count_text doc_unscored ''errors'' = Inr ''0''
   \<and> count_text doc_unscored ''warnings'' = Inr ''0''
   \<and> dimension_total (Some (JObj [])) ''compliance'' = Inr None
   \<and> dimension_total (Some (JObj [])) ''trust'' = Inr None
   \<and> score_text (Some (JObj [])) ''compliance'' ''0'' = Inr ''0''
   \<and> output_value (run sample_runtime (sample_inputs False) (sample_process 0 text_unscored))
         ''compliance-score'' = Some ''0''
   \<and> output_value (run sample_runtime (sample_inputs False) (sample_process 0 text_unscored))
         ''trust-score'' = Some ''0''"
  using missing_total_renders_zero
    [where rt = sample_runtime and p = "sample_process 0 text_unscored" and result = doc_unscored
       and sr = "Some (JObj [])" and ec = "''0''" and wc = "''0''" and c = "''0''"
       and inp = "sample_inputs False"]
  by (simp add: sample_parse sample_process_def doc_unscored_def count_defs dimension_total_def)

subsection \<open>Missing findings\<close>



subsection \<open>The exit code\<close>

text \<open>
  C8. When the stdout parses, two runs that differ in the validator's exit code only end
  in the same host: the same outputs, the same log and the same job status. This holds
  for src/index.ts and for the older variant.
\<close>

theorem exit_code_only_in_parse_failure:
  "JSON_parse rt out = Some result \<Longrightarrow>
   run rt inp \<lparr>exitCode = c1, output = out, errorOutput = err\<rparr>
     = run rt inp \<lparr>exitCode = c2, output = out, errorOutput = err\<rparr>
   \<and> legacy_run rt inp \<lparr>exitCode = c1, output = out, errorOutput = err\<rparr>
     = legacy_run rt inp \<lparr>exitCode = c2, output = out, errorOutput = err\<rparr>"
  by (simp add: run_def run_body_def announce_def legacy_run_def legacy_run_body_def)

theorem exit_code_only_in_parse_failure_witness:
  "JSON_parse sample_runtime text_failed = Some doc_failed
   \<and> run sample_runtime (sample_inputs False)
         \<lparr>exitCode = 0, output = text_failed, errorOutput = []\<rparr>
     = run sample_runtime (sample_inputs False)
         \<lparr>exitCode = 1, output = text_failed, errorOutput = []\<rparr>
   \<and> legacy_run sample_runtime (sample_inputs False)
         \<lparr>exitCode = 0, output = text_failed, errorOutput = []\<rparr>
     = legacy_run sample_runtime (sample_inputs False)
         \<lparr>exitCode = 1, output = text_failed, errorOutput = []\<rparr>"
  using exit_code_only_in_parse_failure
    [of sample_runtime text_failed doc_failed "sample_inputs False" 0 "[]" 1]
  by (simp add: sample_parse)

subsection \<open>Parsed values that are not objects\<close>

text \<open>
  C10 (amended). When the stdout parses to \<open>null\<close>, the first property read faults, the
  outer handler fails the job with the runtime's error message and no output is set.
  When it parses to any other value that is not an object (a boolean, a number, a
  string, an array), nothing faults: every property read yields \<open>undefined\<close>, the seven
  outputs are set to \<open>failed\<close>, \<open>0\<close>, \<open>0\<close>, \<open>N/A\<close>, \<open>N/A\<close>, \<open>N/A\<close>, \<open>false\<close>,
  and the job fails with "Validation failed with 0 error(s)".
\<close>

theorem non_object_json:
  assumes "JSON_parse rt (output p) = Some result"
  shows "(result = JNull \<longrightarrow>
            outputs (run rt inp p) = [] \<and> failed (run rt inp p) = Some (ErrorMessage TypeError))
    \<and> (result \<noteq> JNull \<and> \<not> is_object result \<longrightarrow>
            outputs (run rt inp p) =
              [(''result'', ''failed''), (''error-count'', ''0''), (''warning-count'', ''0''),
               (''compliance-score'', ''N/A''), (''trust-score'', ''N/A''),
               (''availability-score'', ''N/A''), (''production-ready'', ''false'')]
            \<and> failed (run rt inp p) = Some (Text ''Validation failed with 0 error(s)''))"
proof (cases result)
  case JNull
  then show ?thesis
    by (simp add: run_parsed[OF assms] interpret_defs handle_def exec_defs started_props)
next
  case (JObj kvs)
  then show ?thesis by (simp add: is_object_def)
qed (simp_all add: run_parsed[OF assms] interpret_defs handle_def exec_defs started_props
      number_toString_def decimal_0)

theorem non_object_json_witness:
  "JSON_parse sample_runtime (output (sample_process 0 ''null'')) = Some JNull
   \<and> outputs (run sample_runtime (sample_inputs False) (sample_process 0 ''null'')) = []
   \<and> failed (run sample_runtime (sample_inputs False) (sample_process 0 ''null''))
       = Some (ErrorMessage TypeError)
   \<and> JSON_parse sample_runtime (output (sample_process 0 ''5'')) = Some (JNum 5)
   \<and> JNum 5 \<noteq> JNull \<and> \<not> is_object (JNum 5)
   \<and> failed (run sample_runtime (sample_inputs False) (sample_process 0 ''5''))
       = Some (Text ''Validation failed with 0 error(s)'')"
  using non_object_json [of sample_runtime "sample_process 0 ''null''" JNull "sample_inputs False"]
    non_object_json [of sample_runtime "sample_process 0 ''5''" "JNum 5" "sample_inputs False"]
  by (simp add: sample_parse sample_process_def is_object_def)

text \<open>
  C10 as stated has every non-object value fault and leave the outputs unset. The stdout
  \<open>5\<close> parses to a number, on which all seven outputs are set and the failure message
  is the one of an unsuccessful validation.
\<close>

theorem non_object_json_counterexample:
  "JSON_parse sample_runtime ''5'' = Some (JNum 5)
   \<and> \<not> is_object (JNum 5)
   \<and> outputs (run sample_runtime (sample_inputs False) (sample_process 0 ''5'')) =
        [(''result'', ''failed''), (''error-count'', ''0''), (''warning-count'', ''0''),
         (''compliance-score'', ''N/A''), (''trust-score'', ''N/A''),
         (''availability-score'', ''N/A''), (''production-ready'', ''false'')]
   \<and> failed (run sample_runtime (sample_inputs False) (sample_process 0 ''5''))
        = Some (Text ''Validation failed with 0 error(s)'')"
  by (simp add: sample_parse sample_process_def is_object_def run_parsed interpret_defs
      handle_def exec_defs started_props number_toString_def decimal_0)

end
